theory Spec2Isabelle
  imports Complex_Main
begin

section \<open>JavaScript values used by the sources\<close>

text \<open>
  Strings are byte strings: the sources only inspect ASCII characters. A thrown value is
  either an \<open>Error\<close> object (any subclass; only its message is read) or some other value,
  of which only \<open>String(value)\<close> is read.
\<close>

datatype thrown = Error string | NonError string

text \<open>The state a promise is eventually in; \<open>Never\<close> is a promise that stays pending.\<close>

datatype 'a promise = Resolves 'a | Rejects thrown | Never

text \<open>
  A promise whose settling time matters (milliseconds after the call that created it),
  for the race against a timer.
\<close>

datatype 'a timedPromise = ResolvesAt nat 'a | RejectsAt nat thrown | Pending

definition asciiUpper :: string where
  "asciiUpper = ''ABCDEFGHIJKLMNOPQRSTUVWXYZ''"

definition asciiLower :: string where
  "asciiLower = ''abcdefghijklmnopqrstuvwxyz''"

definition asciiDigits :: string where
  "asciiDigits = ''0123456789''"

definition toLowerCaseChar :: "char \<Rightarrow> char" where
  "toLowerCaseChar c = (case map_of (zip asciiUpper asciiLower) c of Some l \<Rightarrow> l | None \<Rightarrow> c)"

definition toLowerCase :: "string \<Rightarrow> string" where
  "toLowerCase s = map toLowerCaseChar s"

text \<open>\<open>String.prototype.trim\<close> on ASCII: tab, line feed, vertical tab, form feed, carriage
  return and space are removed at both ends.\<close>

definition isWhiteSpace :: "char \<Rightarrow> bool" where
  "isWhiteSpace c = (c \<in> set [CHR 0x09, CHR 0x0A, CHR 0x0B, CHR 0x0C, CHR 0x0D, CHR 0x20])"

definition trim :: "string \<Rightarrow> string" where
  "trim s = rev (dropWhile isWhiteSpace (rev (dropWhile isWhiteSpace s)))"

text \<open>
  Number to string, as a template literal does it, for integer-valued numbers. JavaScript
  prints an integer as plain decimal digits up to \<open>10^21\<close>; the numbers of the model are the
  safe integers.
\<close>

fun digitsOf :: "nat \<Rightarrow> string" where
  "digitsOf n = (if n < 10 then [asciiDigits ! n] else digitsOf (n div 10) @ [asciiDigits ! (n mod 10)])"

declare digitsOf.simps [simp del]

definition numToString :: "int \<Rightarrow> string" where
  "numToString n = (if n < 0 then CHR ''-'' # digitsOf (nat (- n)) else digitsOf (nat n))"

definition safeInteger :: "int \<Rightarrow> bool" where
  "safeInteger n = (\<bar>n\<bar> \<le> 9007199254740991)"


section \<open>The DOM and \<open>get_dom_tree\<close> (src/tools/layout.ts)\<close>

text \<open>
  An element with the properties \<open>serializeNode\<close> reads. \<open>className\<close> is \<open>None\<close> when it is
  not a string (as for SVG elements). \<open>childNodes\<close> holds every child node in document
  order: elements, text nodes (with their \<open>textContent\<close>) and the others (comments and so
  on). Attribute names are unique within an element, so the attribute dictionary is the
  list of name/value pairs in order.
\<close>

datatype 'e childNode = ElementChild 'e | TextChild string | OtherChild

datatype element = Element (tagName: string) (elemId: string) (className: "string option")
  (attributes: "(string \<times> string) list") (childNodes: "element childNode list")

text \<open>The interface \<open>DomNode\<close>; an optional property that is not set is \<open>None\<close>.\<close>

datatype DomNode = DomNode (dn_tagName: string) (dn_id: "string option")
  (dn_className: "string option") (dn_attributes: "(string \<times> string) list option")
  (dn_text: "string option") (dn_children: "DomNode list option")
  (dn_childCount: "nat option")

text \<open>\<open>node.children\<close>: the element children only.\<close>

fun childElements :: "'e childNode list \<Rightarrow> 'e list" where
  "childElements [] = []"
| "childElements (ElementChild e # cs) = e # childElements cs"
| "childElements (c # cs) = childElements cs"

text \<open>The text of the text-node children whose \<open>textContent\<close> is not empty.\<close>

fun childTexts :: "'e childNode list \<Rightarrow> string list" where
  "childTexts [] = []"
| "childTexts (TextChild t # cs) = (if t \<noteq> [] then t # childTexts cs else childTexts cs)"
| "childTexts (c # cs) = childTexts cs"

text \<open>The parameters of the tool; \<open>maxDepth\<close> is any number (\<open>zod.number()\<close>).\<close>

record treeArgs =
  rootSelector :: "string option"
  maxDepth :: real
  includeAttributes :: bool
  includeText :: bool

definition serializeAttributes :: "(string \<times> string) list \<Rightarrow> (string \<times> string) list" where
  "serializeAttributes attrs =
     filter (\<lambda>(name, v). name \<noteq> ''style'' \<and> name \<noteq> ''class'' \<and> name \<noteq> ''id'') attrs"

definition serializeText :: "element childNode list \<Rightarrow> string option" where
  "serializeText cns =
     (let text = trim (concat (map (\<lambda>t. trim t @ '' '') (childTexts cns)))
      in if text \<noteq> [] \<and> length text > 0
         then Some (if length text > 50 then take 50 text @ ''...'' else text)
         else None)"

lemma size_childElements:
  "c \<in> set (childElements cs) \<Longrightarrow> size c < Suc (size_list (size_childNode size) cs)"
  by (induction cs rule: childElements.induct) auto

function serializeNode :: "treeArgs \<Rightarrow> element \<Rightarrow> nat \<Rightarrow> DomNode" where
  "serializeNode args node currentDepth =
    (let children = childElements (childNodes node) in
     DomNode
       (toLowerCase (tagName node))
       (if elemId node \<noteq> [] then Some (elemId node) else None)
       (case className node of
          None \<Rightarrow> None
        | Some c \<Rightarrow> if c \<noteq> [] \<and> trim c \<noteq> [] then Some (trim c) else None)
       (if includeAttributes args \<and> attributes node \<noteq> []
        then Some (serializeAttributes (attributes node)) else None)
       (if includeText args then serializeText (childNodes node) else None)
       (if children \<noteq> [] \<and> real currentDepth < maxDepth args
        then Some (map (\<lambda>child. serializeNode args child (currentDepth + 1)) children)
        else None)
       (if children \<noteq> [] \<and> \<not> real currentDepth < maxDepth args
        then Some (length children) else None))"
  by pat_completeness auto
termination
proof (relation "measure (\<lambda>(args, node, currentDepth). size node)")
  show "wf (measure (\<lambda>(args, node, currentDepth). size node))"
    by simp
next
  fix args :: treeArgs and node :: element and currentDepth :: nat
    and children :: "element list" and child :: element
  assume "children = childElements (childNodes node)" and "child \<in> set children"
  then have "size child < size node"
    by (cases node) (auto dest: size_childElements)
  then show "((args, child, currentDepth + 1), (args, node, currentDepth))
      \<in> measure (\<lambda>(args, node, currentDepth). size node)"
    by simp
qed

declare serializeNode.simps [simp del]

text \<open>The document as the page function sees it; \<open>querySelector\<close> throws on a selector it
  cannot parse.\<close>

record document =
  querySelector :: "string \<Rightarrow> thrown + element option"
  body :: "element option"

text \<open>What the page function returns: an object with an \<open>error\<close> property, or the tree.\<close>

datatype treeResult = TreeError string | Tree DomNode

text \<open>The function evaluated in the page (lines 414 to 469).\<close>

definition getDomTree_evaluate :: "document \<Rightarrow> treeArgs \<Rightarrow> thrown + treeResult" where
  "getDomTree_evaluate doc args =
     (case (case rootSelector args of
              None \<Rightarrow> Inr (body doc)
            | Some s \<Rightarrow> if s \<noteq> [] then querySelector doc s else Inr (body doc)) of
        Inl err \<Rightarrow> Inl err
      | Inr None \<Rightarrow>
          Inr (TreeError (''Root element not found: '' @
                 (case rootSelector args of
                    None \<Rightarrow> ''body''
                  | Some s \<Rightarrow> if s \<noteq> [] then s else ''body'')))
      | Inr (Some rootElement) \<Rightarrow> Inr (Tree (serializeNode args rootElement 0)))"

text \<open>The depth of every node of an output tree, the root being at depth \<open>d\<close>.\<close>

fun nodeDepths :: "nat \<Rightarrow> DomNode \<Rightarrow> nat list" where
  "nodeDepths d (DomNode tn i cn attrs txt children cc) =
     d # (case children of
            None \<Rightarrow> []
          | Some cs \<Rightarrow> concat (map (nodeDepths (Suc d)) cs))"


section \<open>\<open>inspect_element\<close> (src/tools/layout.ts)\<close>

text \<open>
  What a tool handler leaves behind: the promise it returns, the evaluations it started in
  the page (one entry per call of \<open>page.evaluate\<close>), and the lines appended to the response.
\<close>

record inspectParams =
  param_selector :: "string option"
  param_x :: "real option"
  param_y :: "real option"
  param_highlight :: bool

text \<open>
  The result of the function evaluated in the page. That function reads the live document
  and its computed styles; the handler only looks at the \<open>error\<close> property and prints the
  rest, given here as its \<open>JSON.stringify\<close> rendering.
\<close>

record inspectResult =
  result_error :: "string option"
  result_json :: string

text \<open>
  The collaborators of the handler: \<open>context.getSelectedPage()\<close> (which may throw) and the
  evaluation of the page function with the given arguments.
\<close>

record 'page toolEnv =
  getSelectedPage :: "thrown + 'page"
  evaluateInspect :: "'page \<Rightarrow> inspectParams \<Rightarrow> inspectResult promise"

definition truthyString :: "string option \<Rightarrow> bool" where
  "truthyString s = (case s of None \<Rightarrow> False | Some v \<Rightarrow> v \<noteq> [])"

definition missingTargetMessage :: string where
  "missingTargetMessage =
     ''Either '' @ [CHR 0x22] @ ''selector'' @ [CHR 0x22] @ '' or '' @ [CHR 0x22] @ ''x'' @ [CHR 0x22]
       @ '' and '' @ [CHR 0x22] @ ''y'' @ [CHR 0x22] @ '' coordinates must be provided.''"

definition inspectElement_handler ::
  "'page toolEnv \<Rightarrow> inspectParams \<Rightarrow> 'page list \<Rightarrow> string list
     \<Rightarrow> unit promise \<times> 'page list \<times> string list" where
  "inspectElement_handler tenv params evaluations response =
     (case getSelectedPage tenv of
        Inl e \<Rightarrow> (Rejects e, evaluations, response)
      | Inr page \<Rightarrow>
          if \<not> truthyString (param_selector params)
             \<and> (param_x params = None \<or> param_y params = None)
          then (Rejects (Error missingTargetMessage), evaluations, response)
          else (case evaluateInspect tenv page params of
                  Rejects e \<Rightarrow> (Rejects e, evaluations @ [page], response)
                | Never \<Rightarrow> (Never, evaluations @ [page], response)
                | Resolves result \<Rightarrow>
                    (Resolves (), evaluations @ [page],
                     response @ [if truthyString (result_error result)
                                 then ''Error: '' @ (case result_error result of
                                                       Some m \<Rightarrow> m | None \<Rightarrow> [])
                                 else result_json result])))"


section \<open>The context registry and \<open>setContext\<close> (src/context.ts)\<close>

text \<open>
  The browser handle of the driver library, with the one property the source reads
  (\<open>browser?.connected\<close>) and an identity.
\<close>

record Browser =
  browserId :: nat
  connected :: bool

text \<open>Modelled from the spec: the class \<open>McpContext\<close> is not among the sources. A Context is
  built once from a live connection handle plus the two feature flags and wraps that
  connection.\<close>

record McpContext =
  ctx_browser :: Browser
  ctx_devToolsDebugging :: bool
  ctx_includeAllPages :: bool

text \<open>What the outside world can observe of a run, in order.\<close>

datatype event =
    ConnectStarted "string option" "string option" bool
  | TimerSet nat int
  | TimerFired nat
  | TimerCleared nat
  | ContextBuild Browser bool bool
  | Fetch string
  | Disconnect Browser

text \<open>
  The process state: the module variable \<open>context\<close>, the timers of the event loop that are
  armed (a timer leaves the list when it fires or is cleared), the next timer handle, and
  the trace of events.
\<close>

record world =
  contextVar :: "McpContext option"
  pendingTimers :: "nat list"
  nextTimerId :: nat
  trace :: "event list"

text \<open>The body of a \<open>/json/version\<close> response after \<open>response.json()\<close>: \<open>null\<close>, an object
  with string-valued properties, or any other JSON value (on which a property read gives
  \<open>undefined\<close>).\<close>

datatype jsonValue = JsonNull | JsonObject "string \<rightharpoonup> string" | JsonOther

record fetchResponse =
  ok :: bool
  statusText :: string
  json :: "jsonValue promise"

text \<open>
  The collaborators that are not among the sources, as parameters:
  \<open>ensureBrowserConnected\<close> of browser.ts (what the connect promise does, and when),
  \<open>McpContext.from\<close>, the global \<open>fetch\<close>, and the part of the \<open>URL\<close> constructor that
  validates what follows the scheme.
\<close>

record env =
  ensureBrowserConnected :: "string option \<Rightarrow> string option \<Rightarrow> bool \<Rightarrow> Browser option timedPromise"
  McpContext_from :: "Browser \<Rightarrow> bool \<Rightarrow> bool \<Rightarrow> McpContext promise"
  fetch :: "string \<Rightarrow> fetchResponse promise"
  urlRemainderInvalid :: "string \<Rightarrow> bool"

record SetContextOptions =
  browserURL :: "string option"
  wsEndpoint :: "string option"
  devtools :: "bool option"
  experimentalIncludeAllPages :: "bool option"
  timeout :: "int option"

text \<open>
  Timers of the runtime. \<open>setTimeout\<close> arms a timer and returns its handle, an object that
  is always truthy. A delay below 1 or above \<open>2^31 - 1\<close> is replaced by 1. Only an armed timer
  fires; \<open>clearTimeout\<close> disarms it.
\<close>

definition timerDelay :: "int \<Rightarrow> nat" where
  "timerDelay ms = (if ms < 1 \<or> 2147483647 < ms then 1 else nat ms)"

definition setTimeout :: "int \<Rightarrow> world \<Rightarrow> nat \<times> world" where
  "setTimeout ms w =
     (nextTimerId w,
      w\<lparr>pendingTimers := pendingTimers w @ [nextTimerId w],
        nextTimerId := Suc (nextTimerId w),
        trace := trace w @ [TimerSet (nextTimerId w) ms]\<rparr>)"

definition clearTimeout :: "nat \<Rightarrow> world \<Rightarrow> world" where
  "clearTimeout timeoutId w =
     w\<lparr>pendingTimers := removeAll timeoutId (pendingTimers w),
       trace := trace w @ [TimerCleared timeoutId]\<rparr>"

definition timerFires :: "nat \<Rightarrow> world \<Rightarrow> world" where
  "timerFires timeoutId w =
     (if timeoutId \<in> set (pendingTimers w)
      then w\<lparr>pendingTimers := removeAll timeoutId (pendingTimers w),
             trace := trace w @ [TimerFired timeoutId]\<rparr>
      else w)"

definition timeoutMessage :: "int \<Rightarrow> string" where
  "timeoutMessage ms =
     ''Failed to connect to browser within '' @ numToString ms
       @ ''ms. Please check that the browser is running and accessible at the provided URL.''"

text \<open>
  Lines 48 to 68: \<open>Promise.race([connectPromise, timeoutPromise])\<close> inside \<open>try\<close>/\<open>finally\<close>.
  The connect promise was created (line 39) before the timer is armed (line 50), so it
  wins when it settles no later than the delay after its creation; otherwise the timer
  fires and rejects. On both paths the \<open>finally\<close> block calls \<open>clearTimeout\<close>.
\<close>

definition raceConnect ::
  "Browser option timedPromise \<Rightarrow> int \<Rightarrow> world \<Rightarrow> Browser option promise \<times> world" where
  "raceConnect connectPromise ms w =
     (let (timeoutId, w1) = setTimeout ms w;
          timedOut = (Rejects (Error (timeoutMessage ms)),
                      clearTimeout timeoutId (timerFires timeoutId w1))
      in case connectPromise of
           ResolvesAt t browser \<Rightarrow>
             if t \<le> timerDelay ms then (Resolves browser, clearTimeout timeoutId w1) else timedOut
         | RejectsAt t e \<Rightarrow>
             if t \<le> timerDelay ms then (Rejects e, clearTimeout timeoutId w1) else timedOut
         | Pending \<Rightarrow> timedOut)"

text \<open>Line 70: \<open>await connectPromise\<close> with no deadline.\<close>

definition awaitConnect :: "Browser option timedPromise \<Rightarrow> Browser option promise" where
  "awaitConnect connectPromise =
     (case connectPromise of
        ResolvesAt t browser \<Rightarrow> Resolves browser
      | RejectsAt t e \<Rightarrow> Rejects e
      | Pending \<Rightarrow> Never)"

definition undefinedBrowserMessage :: string where
  "undefinedBrowserMessage = ''Failed to connect to browser: browser object is undefined''"

text \<open>The destructuring default \<open>= false\<close> of an optional flag.\<close>

definition defaultFalse :: "bool option \<Rightarrow> bool" where
  "defaultFalse flag = (case flag of None \<Rightarrow> False | Some b \<Rightarrow> b)"

text \<open>Lines 39 to 43: the connect promise, created before any timer is set up.\<close>

definition connectPromiseOf :: "env \<Rightarrow> SetContextOptions \<Rightarrow> Browser option timedPromise" where
  "connectPromiseOf e options =
     ensureBrowserConnected e (browserURL options) (wsEndpoint options)
       (defaultFalse (devtools options))"

text \<open>
  Lines 39 to 71: the connect operation is started, then awaited, raced against the timer
  when \<open>timeout\<close> is truthy (set and not 0).
\<close>

definition awaitBrowser :: "env \<Rightarrow> SetContextOptions \<Rightarrow> world \<Rightarrow> Browser option promise \<times> world" where
  "awaitBrowser e options w =
     (let connectPromise = connectPromiseOf e options;
          w1 = w\<lparr>trace := trace w @ [ConnectStarted (browserURL options) (wsEndpoint options)
                                       (defaultFalse (devtools options))]\<rparr>
      in case timeout options of
           None \<Rightarrow> (awaitConnect connectPromise, w1)
         | Some ms \<Rightarrow>
             if ms \<noteq> 0 then raceConnect connectPromise ms w1
             else (awaitConnect connectPromise, w1))"

text \<open>\<open>setContext\<close>. The calls of \<open>logger\<close> have no effect on the state and are left out.\<close>

definition setContext :: "env \<Rightarrow> SetContextOptions \<Rightarrow> world \<Rightarrow> McpContext promise \<times> world" where
  "setContext e options w =
     (let devtools' = defaultFalse (devtools options);
          includeAllPages = defaultFalse (experimentalIncludeAllPages options)
      in case awaitBrowser e options w of
           (Rejects err, w2) \<Rightarrow> (Rejects err, w2)
         | (Never, w2) \<Rightarrow> (Never, w2)
         | (Resolves None, w2) \<Rightarrow> (Rejects (Error undefinedBrowserMessage), w2)
         | (Resolves (Some browser), w2) \<Rightarrow>
             (let w3 = w2\<lparr>trace := trace w2 @ [ContextBuild browser devtools' includeAllPages]\<rparr>
              in case McpContext_from e browser devtools' includeAllPages of
                   Rejects err \<Rightarrow> (Rejects err, w3)
                 | Never \<Rightarrow> (Never, w3)
                 | Resolves newContext \<Rightarrow>
                     (Resolves newContext, w3\<lparr>contextVar := Some newContext\<rparr>)))"

definition getContext :: "world \<Rightarrow> McpContext option" where
  "getContext w = contextVar w"

definition setContextInstance :: "McpContext option \<Rightarrow> world \<Rightarrow> world" where
  "setContextInstance newContext w = w\<lparr>contextVar := newContext\<rparr>"


section \<open>\<open>switch_browser\<close> (second module of src/tools/layout.ts)\<close>

text \<open>Modelled from the spec: \<open>disconnectBrowser\<close> of browser.ts is not among the sources.
  Teardown disconnects the existing live connection, is a no-op if none exists, never
  fails towards its caller, and the registry is cleared on disconnect.\<close>

definition disconnectBrowser :: "world \<Rightarrow> world" where
  "disconnectBrowser w =
     (case contextVar w of
        None \<Rightarrow> w
      | Some ctx \<Rightarrow> w\<lparr>contextVar := None, trace := trace w @ [Disconnect (ctx_browser ctx)]\<rparr>)"

text \<open>
  \<open>new URL(url).protocol\<close>. The scheme is found as the URL standard prescribes: leading and
  trailing C0 control characters and spaces are stripped, tabs and newlines removed, the
  first character must be a letter, and letters, digits, \<open>+\<close>, \<open>-\<close> and \<open>.\<close> are collected in
  lower case up to the first colon. With no scheme the constructor throws a \<open>TypeError\<close>;
  it also throws when what follows the scheme is rejected, which is left to the environment.
\<close>

definition isC0ControlOrSpace :: "char \<Rightarrow> bool" where
  "isC0ControlOrSpace c = ((of_char c :: nat) \<le> 32)"

definition isTabOrNewline :: "char \<Rightarrow> bool" where
  "isTabOrNewline c = (c \<in> set [CHR 0x09, CHR 0x0A, CHR 0x0D])"

definition isAsciiAlpha :: "char \<Rightarrow> bool" where
  "isAsciiAlpha c = (c \<in> set (asciiUpper @ asciiLower))"

definition isSchemeChar :: "char \<Rightarrow> bool" where
  "isSchemeChar c = (c \<in> set (asciiUpper @ asciiLower @ asciiDigits @ ''+-.''))"

fun schemeState :: "string \<Rightarrow> string \<Rightarrow> string option" where
  "schemeState buffer [] = None"
| "schemeState buffer (c # cs) =
     (if isSchemeChar c then schemeState (buffer @ [toLowerCaseChar c]) cs
      else if c = CHR '':'' then Some buffer
      else None)"

definition parseScheme :: "string \<Rightarrow> string option" where
  "parseScheme input =
     (case filter (\<lambda>c. \<not> isTabOrNewline c)
             (rev (dropWhile isC0ControlOrSpace (rev (dropWhile isC0ControlOrSpace input)))) of
        [] \<Rightarrow> None
      | c # cs \<Rightarrow> if isAsciiAlpha c then schemeState [toLowerCaseChar c] cs else None)"

record URL =
  protocol :: string

definition newURL :: "env \<Rightarrow> string \<Rightarrow> thrown + URL" where
  "newURL e url =
     (case parseScheme url of
        None \<Rightarrow> Inl (Error ''Invalid URL'')
      | Some scheme \<Rightarrow>
          if urlRemainderInvalid e url then Inl (Error ''Invalid URL'')
          else Inr \<lparr>protocol = scheme @ '':''\<rparr>)"

definition errorMessage :: "thrown \<Rightarrow> string" where
  "errorMessage err = (case err of Error message \<Rightarrow> message | NonError s \<Rightarrow> s)"

definition couldNotConnect :: "string \<Rightarrow> string \<Rightarrow> thrown" where
  "couldNotConnect url message =
     Error (''Could not connect to browser at '' @ url @ '': '' @ message
            @ ''. Make sure the browser is running and the URL is correct.'')"

text \<open>The message of the \<open>TypeError\<close> for reading a property of \<open>null\<close>.\<close>

definition nullPropertyMessage :: string where
  "nullPropertyMessage =
     ''Cannot read properties of null (reading '' @ [CHR 0x27] @ ''webSocketDebuggerUrl''
       @ [CHR 0x27] @ '')''"

definition convertHttpToBrowserUrl :: "env \<Rightarrow> string \<Rightarrow> world \<Rightarrow> string option promise \<times> world" where
  "convertHttpToBrowserUrl e url w =
     (let w1 = w\<lparr>trace := trace w @ [Fetch (url @ ''/json/version'')]\<rparr>
      in case fetch e (url @ ''/json/version'') of
           Rejects err \<Rightarrow> (Rejects (couldNotConnect url (errorMessage err)), w1)
         | Never \<Rightarrow> (Never, w1)
         | Resolves response \<Rightarrow>
             if \<not> ok response
             then (Rejects (couldNotConnect url
                     (''Failed to fetch browser info: '' @ statusText response)), w1)
             else (case json response of
                     Rejects err \<Rightarrow> (Rejects (couldNotConnect url (errorMessage err)), w1)
                   | Never \<Rightarrow> (Never, w1)
                   | Resolves JsonNull \<Rightarrow> (Rejects (couldNotConnect url nullPropertyMessage), w1)
                   | Resolves (JsonObject data) \<Rightarrow> (Resolves (data ''webSocketDebuggerUrl''), w1)
                   | Resolves JsonOther \<Rightarrow> (Resolves None, w1)))"

text \<open>The command-line arguments of main.ts that the handler reads.\<close>

record cliArgs =
  args_experimentalDevtools :: "bool option"
  args_experimentalIncludeAllPages :: "bool option"

record switchParams =
  param_url :: string
  param_timeout :: "int option"

definition unsupportedProtocol :: "string \<Rightarrow> thrown" where
  "unsupportedProtocol proto =
     Error (''Unsupported protocol: '' @ proto @ ''. Expected http://, https://, ws://, or wss://'')"

definition successLine :: string where
  "successLine = [CHR 0xE2, CHR 0x9C, CHR 0x93] @ '' Successfully connected to browser''"

text \<open>Lines 565 to 574 of the handler: the call of \<open>setContext\<close> and the final response line.\<close>

definition connectNewBrowser ::
  "env \<Rightarrow> cliArgs \<Rightarrow> string option \<Rightarrow> string option \<Rightarrow> int \<Rightarrow> world \<Rightarrow> string list
     \<Rightarrow> unit promise \<times> world \<times> string list" where
  "connectNewBrowser e args browserURL' wsEndpoint' timeout' w response =
     (case setContext e
             \<lparr>browserURL = browserURL', wsEndpoint = wsEndpoint',
              devtools = Some (defaultFalse (args_experimentalDevtools args)),
              experimentalIncludeAllPages = args_experimentalIncludeAllPages args,
              timeout = Some timeout'\<rparr> w of
        (Rejects err, w') \<Rightarrow> (Rejects err, w', response)
      | (Never, w') \<Rightarrow> (Never, w', response)
      | (Resolves newContext, w') \<Rightarrow> (Resolves (), w', response @ [successLine]))"

definition switchBrowser_handler ::
  "env \<Rightarrow> cliArgs \<Rightarrow> switchParams \<Rightarrow> world \<Rightarrow> string list
     \<Rightarrow> unit promise \<times> world \<times> string list" where
  "switchBrowser_handler e args params w response =
     (let url = param_url params;
          timeout' = (case param_timeout params of None \<Rightarrow> 10000 | Some ms \<Rightarrow> ms);
          w1 = disconnectBrowser w
      in case newURL e url of
           Inl err \<Rightarrow> (Rejects err, w1, response)
         | Inr urlObj \<Rightarrow>
             if protocol urlObj = ''ws:'' \<or> protocol urlObj = ''wss:''
             then connectNewBrowser e args None (Some url) timeout' w1
                    (response @ [''Connecting to browser via WebSocket: '' @ url])
             else if protocol urlObj = ''http:'' \<or> protocol urlObj = ''https:''
             then (let response1 = response @ [''Fetching WebSocket endpoint from browser at ''
                                                @ url @ ''...'']
                   in case convertHttpToBrowserUrl e url w1 of
                        (Rejects err, w2) \<Rightarrow> (Rejects err, w2, response1)
                      | (Never, w2) \<Rightarrow> (Never, w2, response1)
                      | (Resolves wsEndpoint', w2) \<Rightarrow>
                          connectNewBrowser e args (Some url) wsEndpoint' timeout' w2
                            (response1 @ [''Resolved WebSocket endpoint: ''
                               @ (case wsEndpoint' of None \<Rightarrow> ''undefined'' | Some s \<Rightarrow> s)]))
             else (Rejects (unsupportedProtocol (protocol urlObj)), w1, response))"


section \<open>Notions used to state the properties\<close>

text \<open>
  The promise settles (resolves or rejects) before a timer of delay \<open>d\<close> fires that is armed
  after the promise was created: it settles no later than \<open>d\<close> milliseconds after its
  creation.
\<close>

definition settlesBefore :: "'a timedPromise \<Rightarrow> nat \<Rightarrow> bool" where
  "settlesBefore p d = (case p of ResolvesAt t v \<Rightarrow> t \<le> d | RejectsAt t err \<Rightarrow> t \<le> d | Pending \<Rightarrow> False)"

text \<open>The connect promise decides the outcome: there is no timer, or it settles before the
  timer is due.\<close>

definition connectDecides :: "env \<Rightarrow> SetContextOptions \<Rightarrow> bool" where
  "connectDecides e options =
     (case timeout options of
        None \<Rightarrow> connectPromiseOf e options \<noteq> Pending
      | Some ms \<Rightarrow> if ms \<noteq> 0 then settlesBefore (connectPromiseOf e options) (timerDelay ms)
                   else connectPromiseOf e options \<noteq> Pending)"

text \<open>The value a settled connect promise resolves to, if it resolves.\<close>

definition resolvedBrowser :: "Browser option timedPromise \<Rightarrow> Browser option option" where
  "resolvedBrowser p = (case p of ResolvesAt t b \<Rightarrow> Some b | RejectsAt t err \<Rightarrow> None | Pending \<Rightarrow> None)"

text \<open>
  The number a decimal numeral denotes: digits, most significant first, with no leading
  zero, and a minus sign in front of a negative number.
\<close>

definition digitValue :: "char \<Rightarrow> nat option" where
  "digitValue c = map_of (zip asciiDigits [0, 1, 2, 3, 4, 5, 6, 7, 8, 9]) c"

fun readDigits :: "nat \<Rightarrow> string \<Rightarrow> nat option" where
  "readDigits acc [] = Some acc"
| "readDigits acc (c # cs) =
     (case digitValue c of None \<Rightarrow> None | Some v \<Rightarrow> readDigits (10 * acc + v) cs)"

definition readNat :: "string \<Rightarrow> nat option" where
  "readNat s =
     (case s of
        [] \<Rightarrow> None
      | c # cs \<Rightarrow> if c = CHR ''0'' \<and> cs \<noteq> [] then None else readDigits 0 s)"

definition readNumber :: "string \<Rightarrow> int option" where
  "readNumber s =
     (case s of
        [] \<Rightarrow> None
      | c # cs \<Rightarrow>
          if c = CHR ''-''
          then (case readNat cs of
                  None \<Rightarrow> None
                | Some n \<Rightarrow> if n = 0 then None else Some (- int n))
          else (case readNat s of None \<Rightarrow> None | Some n \<Rightarrow> Some (int n)))"

text \<open>Modelled from the spec: \<open>ensureBrowserConnected\<close> of browser.ts is not among the sources.
  At least one of the two addresses must be resolvable before the attempt proceeds, and the
  operation fails with \<open>InvalidArgument\<close> if neither is: called with neither address, the
  connect operation rejects at once, before any connection is attempted, with the
  \<open>InvalidArgument\<close> error \<open>err\<close>.\<close>

definition rejectsMissingAddresses :: "env \<Rightarrow> thrown \<Rightarrow> bool" where
  "rejectsMissingAddresses e err =
     (ensureBrowserConnected e None None False = RejectsAt 0 err
      \<and> ensureBrowserConnected e None None True = RejectsAt 0 err)"

text \<open>Network calls: the metadata fetch and the driver's connect.\<close>

fun isNetworkCall :: "event \<Rightarrow> bool" where
  "isNetworkCall (Fetch u) = True"
| "isNetworkCall (ConnectStarted b s d) = True"
| "isNetworkCall ev = False"

fun isFetch :: "event \<Rightarrow> bool" where
  "isFetch (Fetch u) = True"
| "isFetch ev = False"

fun isContextBuild :: "event \<Rightarrow> bool" where
  "isContextBuild (ContextBuild b d i) = True"
| "isContextBuild ev = False"


section \<open>Concrete inputs\<close>

definition exampleDom :: element where
  "exampleDom =
     Element ''BODY'' [] (Some []) []
       [TextChild ''  hello '',
        ElementChild (Element ''DIV'' ''main'' (Some '' box '')
          [(''id'', ''main''), (''class'', '' box ''), (''role'', ''list'')]
          [ElementChild (Element ''P'' [] (Some []) [] [TextChild ''deep'']), OtherChild]),
        ElementChild (Element ''SPAN'' [] (Some []) [] [])]"

definition exampleDoc :: document where
  "exampleDoc = \<lparr>querySelector = (\<lambda>s. Inr None), body = Some exampleDom\<rparr>"

definition exampleArgs :: "real \<Rightarrow> treeArgs" where
  "exampleArgs m =
     \<lparr>rootSelector = None, maxDepth = m, includeAttributes = True, includeText = True\<rparr>"

definition exampleToolEnv :: "nat toolEnv" where
  "exampleToolEnv =
     \<lparr>getSelectedPage = Inr 0,
      evaluateInspect = (\<lambda>page params.
         Resolves \<lparr>result_error = Some ''Element not found'', result_json = ''{}''\<rparr>)\<rparr>"

definition exampleBrowser :: "bool \<Rightarrow> Browser" where
  "exampleBrowser c = \<lparr>browserId = 7, connected = c\<rparr>"

definition exampleContext :: "Browser \<Rightarrow> bool \<Rightarrow> bool \<Rightarrow> McpContext" where
  "exampleContext b d i = \<lparr>ctx_browser = b, ctx_devToolsDebugging = d, ctx_includeAllPages = i\<rparr>"

text \<open>An environment in which the connect promise is \<open>p\<close>, context construction does \<open>build\<close>,
  and the control endpoint answers \<open>answer\<close>.\<close>

definition exampleEnv ::
  "Browser option timedPromise \<Rightarrow> (Browser \<Rightarrow> bool \<Rightarrow> bool \<Rightarrow> McpContext promise)
     \<Rightarrow> fetchResponse promise \<Rightarrow> env" where
  "exampleEnv p build answer =
     \<lparr>ensureBrowserConnected = (\<lambda>bu ws d. p),
      McpContext_from = build,
      fetch = (\<lambda>u. answer),
      urlRemainderInvalid = (\<lambda>u. False)\<rparr>"

text \<open>An environment whose connect operation checks that an address is given.\<close>

definition validatingEnv :: env where
  "validatingEnv =
     \<lparr>ensureBrowserConnected = (\<lambda>bu ws d.
         if bu = None \<and> ws = None
         then RejectsAt 0 (Error ''Either browserURL or wsEndpoint must be provided'')
         else ResolvesAt 3 (Some \<lparr>browserId = 7, connected = True\<rparr>)),
      McpContext_from = (\<lambda>b d i.
         Resolves \<lparr>ctx_browser = b, ctx_devToolsDebugging = d, ctx_includeAllPages = i\<rparr>),
      fetch = (\<lambda>u. Never),
      urlRemainderInvalid = (\<lambda>u. False)\<rparr>"

definition buildOk :: "Browser \<Rightarrow> bool \<Rightarrow> bool \<Rightarrow> McpContext promise" where
  "buildOk b d i = Resolves (exampleContext b d i)"

text \<open>A world whose registry holds a context from an earlier connection.\<close>

definition exampleWorld :: world where
  "exampleWorld =
     \<lparr>contextVar = Some (exampleContext \<lparr>browserId = 3, connected = True\<rparr> False False),
      pendingTimers = [], nextTimerId = 0, trace = []\<rparr>"

definition exampleOptions :: "int option \<Rightarrow> SetContextOptions" where
  "exampleOptions ms =
     \<lparr>browserURL = None, wsEndpoint = Some ''ws://127.0.0.1:9222/devtools/browser/abc'',
      devtools = None, experimentalIncludeAllPages = None, timeout = ms\<rparr>"

definition exampleCliArgs :: cliArgs where
  "exampleCliArgs = \<lparr>args_experimentalDevtools = None, args_experimentalIncludeAllPages = None\<rparr>"


section \<open>Facts about numerals\<close>

lemma below_ten: "k < 10 \<Longrightarrow> k \<in> {0, 1, 2, 3, 4, 5, 6, 7, 8, 9::nat}"
  by auto

lemma digitValue_digit: "k < 10 \<Longrightarrow> digitValue (asciiDigits ! k) = Some k"
  by (drule below_ten) (auto simp: digitValue_def asciiDigits_def)

lemma digit_zero: "k < 10 \<Longrightarrow> asciiDigits ! k = CHR ''0'' \<Longrightarrow> k = 0"
  by (drule below_ten) (auto simp: asciiDigits_def)

lemma digit_not_minus: "k < 10 \<Longrightarrow> asciiDigits ! k \<noteq> CHR ''-''"
  by (drule below_ten) (auto simp: asciiDigits_def)

lemma readDigits_snoc:
  "readDigits acc (cs @ [c]) =
     (case readDigits acc cs of
        None \<Rightarrow> None
      | Some a \<Rightarrow> (case digitValue c of None \<Rightarrow> None | Some v \<Rightarrow> Some (10 * a + v)))"
  by (induction cs arbitrary: acc) (auto split: option.splits)

lemma readDigits_digitsOf: "readDigits 0 (digitsOf n) = Some n"
proof (induction n rule: digitsOf.induct)
  case (1 n)
  show ?case
  proof (cases "n < 10")
    case True
    then show ?thesis
      by (subst digitsOf.simps) (simp add: digitValue_digit)
  next
    case False
    with "1.IH" have "readDigits 0 (digitsOf (n div 10)) = Some (n div 10)" by simp
    with False show ?thesis
      by (subst digitsOf.simps) (simp add: readDigits_snoc digitValue_digit)
  qed
qed

text \<open>The printed digits start with a digit, which is 0 only for the number 0.\<close>

lemma digitsOf_first:
  "\<exists>k cs. k < 10 \<and> digitsOf n = asciiDigits ! k # cs \<and> (k = 0 \<longrightarrow> n = 0 \<and> cs = [])"
proof (induction n rule: digitsOf.induct)
  case (1 n)
  show ?case
  proof (cases "n < 10")
    case True
    then show ?thesis
      by (subst digitsOf.simps) auto
  next
    case False
    with "1.IH" obtain k cs where k: "k < 10" "digitsOf (n div 10) = asciiDigits ! k # cs"
      "k = 0 \<longrightarrow> n div 10 = 0 \<and> cs = []"
      by auto
    from False have "n div 10 \<noteq> 0" by simp
    with k have "k \<noteq> 0" by auto
    with k False show ?thesis
      by (subst digitsOf.simps) auto
  qed
qed

lemma readNat_digitsOf: "readNat (digitsOf n) = Some n"
proof -
  obtain k cs where k: "k < 10" "digitsOf n = asciiDigits ! k # cs" "k = 0 \<longrightarrow> n = 0 \<and> cs = []"
    using digitsOf_first by blast
  have "\<not> (asciiDigits ! k = CHR ''0'' \<and> cs \<noteq> [])"
    using k digit_zero by blast
  with k(2) readDigits_digitsOf[of n] show ?thesis
    by (simp add: readNat_def)
qed

text \<open>What the template literal prints for an integer reads back as that integer.\<close>

lemma readNumber_numToString: "readNumber (numToString n) = Some n"
proof (cases "n < 0")
  case True
  then show ?thesis
    by (simp add: numToString_def readNumber_def readNat_digitsOf)
next
  case False
  obtain k cs where k: "k < 10" "digitsOf (nat n) = asciiDigits ! k # cs"
    using digitsOf_first by blast
  with False readNat_digitsOf[of "nat n"] digit_not_minus[of k] show ?thesis
    by (simp add: numToString_def readNumber_def)
qed


section \<open>Facts about \<open>setContext\<close>\<close>

text \<open>The unfolding rules with which a run on concrete inputs is evaluated.\<close>

lemmas url_eval = parseScheme_def newURL_def isC0ControlOrSpace_def isTabOrNewline_def
  isAsciiAlpha_def isSchemeChar_def toLowerCaseChar_def asciiUpper_def asciiLower_def asciiDigits_def

lemmas ctx_eval = setContext_def awaitBrowser_def raceConnect_def awaitConnect_def
  connectPromiseOf_def defaultFalse_def setTimeout_def clearTimeout_def timerFires_def
  timerDelay_def Let_def exampleEnv_def exampleOptions_def exampleWorld_def exampleContext_def
  exampleBrowser_def buildOk_def exampleCliArgs_def getContext_def settlesBefore_def
  connectDecides_def resolvedBrowser_def

lemmas switch_eval = switchBrowser_handler_def connectNewBrowser_def convertHttpToBrowserUrl_def
  disconnectBrowser_def unsupportedProtocol_def couldNotConnect_def errorMessage_def

lemmas num_eval = timeoutMessage_def numToString_def digitsOf.simps safeInteger_def
  readNumber_def readNat_def digitValue_def asciiDigits_def


subsection \<open>The race\<close>

lemma raceConnect_connect_first:
  "settlesBefore p (timerDelay ms) \<Longrightarrow>
     raceConnect p ms w = (awaitConnect p, clearTimeout (nextTimerId w) (snd (setTimeout ms w)))"
  by (simp add: raceConnect_def settlesBefore_def awaitConnect_def setTimeout_def
      split: timedPromise.splits)

lemma raceConnect_timer_first:
  "\<not> settlesBefore p (timerDelay ms) \<Longrightarrow>
     raceConnect p ms w =
       (Rejects (Error (timeoutMessage ms)),
        clearTimeout (nextTimerId w) (timerFires (nextTimerId w) (snd (setTimeout ms w))))"
  by (simp add: raceConnect_def settlesBefore_def setTimeout_def split: timedPromise.splits)

lemma contextVar_timers [simp]:
  "contextVar (snd (setTimeout ms w)) = contextVar w"
  "contextVar (clearTimeout t w) = contextVar w"
  "contextVar (timerFires t w) = contextVar w"
  by (simp_all add: setTimeout_def clearTimeout_def timerFires_def)

lemma raceConnect_contextVar: "contextVar (snd (raceConnect p ms w)) = contextVar w"
  by (cases "settlesBefore p (timerDelay ms)")
     (simp_all add: raceConnect_connect_first raceConnect_timer_first)

lemma awaitBrowser_contextVar: "contextVar (snd (awaitBrowser e options w)) = contextVar w"
  by (simp add: awaitBrowser_def Let_def raceConnect_contextVar split: option.splits)

lemma awaitBrowser_connect_decides:
  "connectDecides e options \<Longrightarrow>
     fst (awaitBrowser e options w) = awaitConnect (connectPromiseOf e options)"
  by (auto simp: awaitBrowser_def connectDecides_def Let_def raceConnect_connect_first
      split: option.splits if_splits)

lemma awaitBrowser_timer_first:
  "timeout options = Some ms \<Longrightarrow> ms \<noteq> 0 \<Longrightarrow>
   \<not> settlesBefore (connectPromiseOf e options) (timerDelay ms) \<Longrightarrow>
     fst (awaitBrowser e options w) = Rejects (Error (timeoutMessage ms))"
  by (simp add: awaitBrowser_def Let_def raceConnect_timer_first)

lemma awaitBrowser_world_connect_first:
  "timeout options = Some ms \<Longrightarrow> ms \<noteq> 0 \<Longrightarrow>
   settlesBefore (connectPromiseOf e options) (timerDelay ms) \<Longrightarrow>
     snd (awaitBrowser e options w) =
       w\<lparr>pendingTimers := removeAll (nextTimerId w) (pendingTimers w),
         nextTimerId := Suc (nextTimerId w),
         trace := trace w @ [ConnectStarted (browserURL options) (wsEndpoint options)
                               (defaultFalse (devtools options)),
                             TimerSet (nextTimerId w) ms, TimerCleared (nextTimerId w)]\<rparr>"
  by (simp add: awaitBrowser_def Let_def raceConnect_connect_first setTimeout_def clearTimeout_def)

lemma awaitBrowser_trace:
  "\<exists>evs. trace (snd (awaitBrowser e options w)) =
           trace w @ ConnectStarted (browserURL options) (wsEndpoint options)
                       (defaultFalse (devtools options)) # evs
         \<and> (\<forall>ev \<in> set evs. \<not> isNetworkCall ev \<and> \<not> isContextBuild ev)"
proof (cases "\<exists>ms. timeout options = Some ms \<and> ms \<noteq> 0")
  case False
  then show ?thesis
    by (auto simp: awaitBrowser_def Let_def split: option.splits)
next
  case True
  then obtain ms where ms: "timeout options = Some ms" "ms \<noteq> 0" by auto
  show ?thesis
  proof (cases "settlesBefore (connectPromiseOf e options) (timerDelay ms)")
    case True
    with ms show ?thesis
      by (simp add: awaitBrowser_def Let_def raceConnect_connect_first setTimeout_def
          clearTimeout_def)
  next
    case False
    with ms show ?thesis
      by (simp add: awaitBrowser_def Let_def raceConnect_timer_first setTimeout_def
          clearTimeout_def timerFires_def)
  qed
qed


subsection \<open>The whole function\<close>

text \<open>\<open>setContext\<close> by the outcome of the awaited connect operation.\<close>

lemma setContext_cases:
  "setContext e options w =
     (case awaitBrowser e options w of
        (Rejects err, w2) \<Rightarrow> (Rejects err, w2)
      | (Never, w2) \<Rightarrow> (Never, w2)
      | (Resolves None, w2) \<Rightarrow> (Rejects (Error undefinedBrowserMessage), w2)
      | (Resolves (Some browser), w2) \<Rightarrow>
          (McpContext_from e browser (defaultFalse (devtools options))
             (defaultFalse (experimentalIncludeAllPages options)),
           (case McpContext_from e browser (defaultFalse (devtools options))
                   (defaultFalse (experimentalIncludeAllPages options)) of
              Resolves c \<Rightarrow>
                w2\<lparr>contextVar := Some c,
                   trace := trace w2 @ [ContextBuild browser (defaultFalse (devtools options))
                     (defaultFalse (experimentalIncludeAllPages options))]\<rparr>
            | _ \<Rightarrow> w2\<lparr>trace := trace w2 @ [ContextBuild browser (defaultFalse (devtools options))
                     (defaultFalse (experimentalIncludeAllPages options))]\<rparr>)))"
  by (simp add: setContext_def Let_def split: prod.splits promise.splits option.splits)

lemma setContext_trace:
  "\<exists>evs. trace (snd (setContext e options w)) =
           trace w @ ConnectStarted (browserURL options) (wsEndpoint options)
                       (defaultFalse (devtools options)) # evs
         \<and> (\<forall>ev \<in> set evs. \<not> isNetworkCall ev)"
proof -
  obtain evs where evs: "trace (snd (awaitBrowser e options w)) =
      trace w @ ConnectStarted (browserURL options) (wsEndpoint options)
                  (defaultFalse (devtools options)) # evs"
    and quiet: "\<forall>ev \<in> set evs. \<not> isNetworkCall ev \<and> \<not> isContextBuild ev"
    using awaitBrowser_trace[of e options w] by blast
  obtain r w2 where aw: "awaitBrowser e options w = (r, w2)" by (cases "awaitBrowser e options w")
  with evs have w2: "trace w2 = trace w @ ConnectStarted (browserURL options) (wsEndpoint options)
                  (defaultFalse (devtools options)) # evs" by simp
  show ?thesis
    using quiet
    by (auto simp: setContext_cases aw w2 split: promise.splits option.splits)
qed

lemma setContext_failure_contextVar:
  "setContext e options w = (Rejects err, w') \<Longrightarrow> contextVar w' = contextVar w"
  using awaitBrowser_contextVar[of e options w]
  by (cases "awaitBrowser e options w")
     (auto simp: setContext_def Let_def split: promise.splits option.splits)


section \<open>Facts about \<open>switch_browser\<close>\<close>

lemma disconnectBrowser_contextVar: "contextVar (disconnectBrowser w) = None"
  by (simp add: disconnectBrowser_def split: option.splits)

lemma convertHttp_contextVar: "contextVar (snd (convertHttpToBrowserUrl e url w)) = contextVar w"
  by (simp add: convertHttpToBrowserUrl_def Let_def split: promise.splits jsonValue.splits)

lemma connectNewBrowser_failure_contextVar:
  "connectNewBrowser e args bu ws ms w response = (Rejects err, w', response') \<Longrightarrow>
     contextVar w' = contextVar w"
  by (auto simp: connectNewBrowser_def split: prod.splits promise.splits
      dest: setContext_failure_contextVar)

lemma switchBrowser_failure_contextVar:
  "switchBrowser_handler e args params w response = (Rejects err, w', response') \<Longrightarrow>
     contextVar w' = None"
  using convertHttp_contextVar[of e "param_url params" "disconnectBrowser w"]
  by (auto simp: switchBrowser_handler_def Let_def disconnectBrowser_contextVar
      split: sum.splits if_splits prod.splits promise.splits
      dest!: connectNewBrowser_failure_contextVar)

lemma connectNewBrowser_trace:
  "\<exists>evs. trace (fst (snd (connectNewBrowser e args bu ws ms w response)))
           = trace w @ ConnectStarted bu ws (defaultFalse (args_experimentalDevtools args)) # evs
         \<and> (\<forall>ev \<in> set evs. \<not> isNetworkCall ev)"
proof -
  let ?options = "\<lparr>browserURL = bu, wsEndpoint = ws,
              devtools = Some (defaultFalse (args_experimentalDevtools args)),
              experimentalIncludeAllPages = args_experimentalIncludeAllPages args,
              timeout = Some ms\<rparr>"
  have "fst (snd (connectNewBrowser e args bu ws ms w response)) = snd (setContext e ?options w)"
    by (simp add: connectNewBrowser_def split: prod.splits promise.splits)
  with setContext_trace[of e ?options w] show ?thesis
    by (simp add: defaultFalse_def)
qed

lemma newURL_scheme:
  "parseScheme url = Some scheme \<Longrightarrow> \<not> urlRemainderInvalid e url \<Longrightarrow>
     newURL e url = Inr \<lparr>protocol = scheme @ '':''\<rparr>"
  by (simp add: newURL_def)

lemma disconnectBrowser_network:
  "filter isNetworkCall (trace (disconnectBrowser w)) = filter isNetworkCall (trace w)"
  by (simp add: disconnectBrowser_def split: option.splits)

lemma convertHttp_failure:
  "fetch e (url @ ''/json/version'') = Rejects (Error cause)
   \<or> fetch e (url @ ''/json/version'') = Rejects (NonError cause)
   \<or> (fetch e (url @ ''/json/version'') = Resolves answer \<and> \<not> ok answer
       \<and> cause = ''Failed to fetch browser info: '' @ statusText answer)
   \<or> (fetch e (url @ ''/json/version'') = Resolves answer \<and> ok answer
       \<and> (json answer = Rejects (Error cause) \<or> json answer = Rejects (NonError cause)
           \<or> (json answer = Resolves JsonNull
               \<and> cause = ''Cannot read properties of null (reading '' @ [CHR 0x27]
                            @ ''webSocketDebuggerUrl'' @ [CHR 0x27] @ '')''))) \<Longrightarrow>
     convertHttpToBrowserUrl e url w =
       (Rejects (Error (''Could not connect to browser at '' @ url @ '': '' @ cause
                        @ ''. Make sure the browser is running and the URL is correct.'')),
        w\<lparr>trace := trace w @ [Fetch (url @ ''/json/version'')]\<rparr>)"
  by (auto simp: convertHttpToBrowserUrl_def couldNotConnect_def errorMessage_def
      nullPropertyMessage_def Let_def)

lemma convertHttp_world:
  "snd (convertHttpToBrowserUrl e url w) = w\<lparr>trace := trace w @ [Fetch (url @ ''/json/version'')]\<rparr>"
  by (simp add: convertHttpToBrowserUrl_def Let_def split: promise.splits jsonValue.splits)

lemma convertHttp_object:
  "fetch e (url @ ''/json/version'') = Resolves r \<Longrightarrow> ok r \<Longrightarrow>
   json r = Resolves (JsonObject data) \<Longrightarrow>
     fst (convertHttpToBrowserUrl e url w) = Resolves (data ''webSocketDebuggerUrl'')"
  by (simp add: convertHttpToBrowserUrl_def Let_def)

lemma isFetch_network: "isFetch ev \<Longrightarrow> isNetworkCall ev"
  by (cases ev) simp_all


section \<open>The registry after a failed attempt\<close>

text \<open>
  C1: for every failed \<open>setContext\<close> attempt (the connect operation rejects, the timeout
  fires, the handle is undefined, or context construction fails), the registry read by
  \<open>getContext\<close> is unchanged from its value before the attempt when \<open>setContext\<close> is called
  directly, and is empty when the attempt was made through \<open>switch_browser\<close>, whose teardown
  ran first.
\<close>

theorem failed_attempt_registry:
  "(setContext e options w = (Rejects err, w') \<longrightarrow> getContext w' = getContext w)
   \<and> (switchBrowser_handler e args params w response = (Rejects switchErr, switchWorld, switchResponse)
        \<longrightarrow> getContext switchWorld = None)"
  by (auto simp: getContext_def dest: setContext_failure_contextVar
      switchBrowser_failure_contextVar)

theorem failed_attempt_registry_witness:
  "setContext (exampleEnv (RejectsAt 5 (Error ''connect ECONNREFUSED'')) buildOk Never)
       (exampleOptions (Some 50)) exampleWorld
     = (Rejects (Error ''connect ECONNREFUSED''),
        exampleWorld\<lparr>nextTimerId := 1,
          trace := [ConnectStarted None (Some ''ws://127.0.0.1:9222/devtools/browser/abc'') False,
                    TimerSet 0 50, TimerCleared 0]\<rparr>)
   \<and> getContext (exampleWorld\<lparr>nextTimerId := 1,
          trace := [ConnectStarted None (Some ''ws://127.0.0.1:9222/devtools/browser/abc'') False,
                    TimerSet 0 50, TimerCleared 0]\<rparr>) = getContext exampleWorld
   \<and> getContext exampleWorld
       = Some (exampleContext \<lparr>browserId = 3, connected = True\<rparr> False False)
   \<and> switchBrowser_handler (exampleEnv (RejectsAt 5 (Error ''connect ECONNREFUSED'')) buildOk Never)
       exampleCliArgs
       \<lparr>param_url = ''ws://127.0.0.1:9222/devtools/browser/abc'', param_timeout = Some 50\<rparr>
       exampleWorld []
     = (Rejects (Error ''connect ECONNREFUSED''),
        \<lparr>contextVar = None, pendingTimers = [], nextTimerId = 1,
          trace = [Disconnect \<lparr>browserId = 3, connected = True\<rparr>,
                   ConnectStarted None (Some ''ws://127.0.0.1:9222/devtools/browser/abc'') False,
                   TimerSet 0 50, TimerCleared 0]\<rparr>,
        [''Connecting to browser via WebSocket: ws://127.0.0.1:9222/devtools/browser/abc''])
   \<and> getContext \<lparr>contextVar = None, pendingTimers = [], nextTimerId = 1,
          trace = [Disconnect \<lparr>browserId = 3, connected = True\<rparr>,
                   ConnectStarted None (Some ''ws://127.0.0.1:9222/devtools/browser/abc'') False,
                   TimerSet 0 50, TimerCleared 0]\<rparr> = None"
  using failed_attempt_registry[
      where e = "exampleEnv (RejectsAt 5 (Error ''connect ECONNREFUSED'')) buildOk Never"
        and options = "exampleOptions (Some 50)" and w = exampleWorld
        and err = "Error ''connect ECONNREFUSED''"
        and w' = "exampleWorld\<lparr>nextTimerId := 1,
          trace := [ConnectStarted None (Some ''ws://127.0.0.1:9222/devtools/browser/abc'') False,
                    TimerSet 0 50, TimerCleared 0]\<rparr>"
        and args = exampleCliArgs
        and params = "\<lparr>param_url = ''ws://127.0.0.1:9222/devtools/browser/abc'',
                        param_timeout = Some 50\<rparr>"
        and response = "[]" and switchErr = "Error ''connect ECONNREFUSED''"
        and switchWorld = "\<lparr>contextVar = None, pendingTimers = [], nextTimerId = 1,
          trace = [Disconnect \<lparr>browserId = 3, connected = True\<rparr>,
                   ConnectStarted None (Some ''ws://127.0.0.1:9222/devtools/browser/abc'') False,
                   TimerSet 0 50, TimerCleared 0]\<rparr>"
        and switchResponse =
          "[''Connecting to browser via WebSocket: ws://127.0.0.1:9222/devtools/browser/abc'']"]
  by (simp add: ctx_eval switch_eval url_eval)

text \<open>
  The three ways an attempt fails, on a registry that holds a context: a timeout and a
  failed context construction called directly leave that context in place; the same
  timeout through \<open>switch_browser\<close> leaves the registry empty.
\<close>

lemma failure_modes_registry:
  "getContext (snd (setContext (exampleEnv Pending buildOk Never) (exampleOptions (Some 50))
      exampleWorld)) = getContext exampleWorld"
  "setContext (exampleEnv (ResolvesAt 3 (Some (exampleBrowser True)))
        (\<lambda>b d i. Rejects (Error ''no pages'')) Never) (exampleOptions None) exampleWorld
     = (Rejects (Error ''no pages''),
        exampleWorld\<lparr>trace :=
          [ConnectStarted None (Some ''ws://127.0.0.1:9222/devtools/browser/abc'') False,
           ContextBuild (exampleBrowser True) False False]\<rparr>)"
  "getContext (fst (snd (switchBrowser_handler (exampleEnv Pending buildOk Never) exampleCliArgs
      \<lparr>param_url = ''ws://127.0.0.1:9222/devtools/browser/abc'', param_timeout = Some 50\<rparr>
      exampleWorld []))) = None"
  by (simp_all add: ctx_eval switch_eval url_eval)


section \<open>Validation of the browser handle\<close>

text \<open>
  C2, as stated, fails: "a handle whose connected indicator is false causes setContext to
  fail". The source only logs \<open>browser?.connected\<close>; a handle that reports not-connected is
  handed to \<open>McpContext.from\<close> and \<open>setContext\<close> succeeds with it.
\<close>

theorem disconnected_handle_counterexample:
  "connected (exampleBrowser False) = False
   \<and> setContext (exampleEnv (ResolvesAt 3 (Some (exampleBrowser False))) buildOk Never)
       (exampleOptions (Some 50)) exampleWorld
     = (Resolves (exampleContext (exampleBrowser False) False False),
        \<lparr>contextVar = Some (exampleContext (exampleBrowser False) False False),
         pendingTimers = [], nextTimerId = 1,
         trace = [ConnectStarted None (Some ''ws://127.0.0.1:9222/devtools/browser/abc'') False,
                  TimerSet 0 50, TimerCleared 0,
                  ContextBuild (exampleBrowser False) False False]\<rparr>)"
  by (simp add: ctx_eval)


text \<open>
  C2, amended: after the connect operation resolves (before the timer, if one is armed), a
  null or undefined browser handle makes \<open>setContext\<close> fail with the error "Failed to
  connect to browser: browser object is undefined", and nothing is passed to context
  construction; every other handle, whatever its connected indicator, is passed to context
  construction, whose outcome is the outcome of \<open>setContext\<close>.
\<close>

theorem handle_validation:
  "connectDecides e options \<Longrightarrow>
     (resolvedBrowser (connectPromiseOf e options) = Some None
        \<longrightarrow> fst (setContext e options w) = Rejects (Error undefinedBrowserMessage)
            \<and> filter isContextBuild (trace (snd (setContext e options w)))
                = filter isContextBuild (trace w))
     \<and> (resolvedBrowser (connectPromiseOf e options) = Some (Some browser)
        \<longrightarrow> fst (setContext e options w)
              = McpContext_from e browser (defaultFalse (devtools options))
                  (defaultFalse (experimentalIncludeAllPages options))
            \<and> ContextBuild browser (defaultFalse (devtools options))
                  (defaultFalse (experimentalIncludeAllPages options))
                \<in> set (trace (snd (setContext e options w))))"
proof -
  assume decides: "connectDecides e options"
  obtain r w2 where aw: "awaitBrowser e options w = (r, w2)"
    by (cases "awaitBrowser e options w")
  from awaitBrowser_connect_decides[OF decides, of w] aw
  have r: "r = awaitConnect (connectPromiseOf e options)" by simp
  obtain evs where "trace w2 = trace w @ ConnectStarted (browserURL options) (wsEndpoint options)
        (defaultFalse (devtools options)) # evs"
    and "\<forall>ev \<in> set evs. \<not> isNetworkCall ev \<and> \<not> isContextBuild ev"
    using awaitBrowser_trace[of e options w] aw by auto
  then have quiet: "filter isContextBuild (trace w2) = filter isContextBuild (trace w)"
    by simp
  show ?thesis
    using quiet
    by (auto simp: setContext_cases aw r resolvedBrowser_def awaitConnect_def
        split: timedPromise.splits promise.splits)
qed

theorem handle_validation_witness:
  "connectDecides (exampleEnv (ResolvesAt 3 None) buildOk Never) (exampleOptions (Some 50))
   \<and> resolvedBrowser (connectPromiseOf (exampleEnv (ResolvesAt 3 None) buildOk Never)
        (exampleOptions (Some 50))) = Some None
   \<and> setContext (exampleEnv (ResolvesAt 3 None) buildOk Never) (exampleOptions (Some 50))
        exampleWorld
     = (Rejects (Error ''Failed to connect to browser: browser object is undefined''),
        exampleWorld\<lparr>nextTimerId := 1,
          trace := [ConnectStarted None (Some ''ws://127.0.0.1:9222/devtools/browser/abc'') False,
                    TimerSet 0 50, TimerCleared 0]\<rparr>)
   \<and> connectDecides (exampleEnv (ResolvesAt 3 (Some (exampleBrowser False))) buildOk Never)
        (exampleOptions None)
   \<and> resolvedBrowser (connectPromiseOf
        (exampleEnv (ResolvesAt 3 (Some (exampleBrowser False))) buildOk Never)
        (exampleOptions None)) = Some (Some (exampleBrowser False))
   \<and> ContextBuild (exampleBrowser False) False False
       \<in> set (trace (snd (setContext
            (exampleEnv (ResolvesAt 3 (Some (exampleBrowser False))) buildOk Never)
            (exampleOptions None) exampleWorld)))"
  using handle_validation[where e = "exampleEnv (ResolvesAt 3 None) buildOk Never"
      and options = "exampleOptions (Some 50)" and w = exampleWorld]
    handle_validation[
      where e = "exampleEnv (ResolvesAt 3 (Some (exampleBrowser False))) buildOk Never"
      and options = "exampleOptions None" and browser = "exampleBrowser False"
      and w = exampleWorld]
  by (simp add: ctx_eval undefinedBrowserMessage_def)


section \<open>The timeout\<close>

text \<open>
  C3: for every call of \<open>setContext\<close> with a timeout set (a non-zero number of milliseconds)
  and a connect operation that does not settle before the timer fires, the call fails with
  the timeout error: its message is "Failed to connect to browser within", a decimal
  numeral that denotes the configured duration, and "ms. Please check that the browser is
  running and accessible at the provided URL."
\<close>

theorem timeout_failure:
  "timeout options = Some ms \<Longrightarrow> ms \<noteq> 0 \<Longrightarrow> safeInteger ms \<Longrightarrow>
   \<not> settlesBefore (ensureBrowserConnected e (browserURL options) (wsEndpoint options)
                      (defaultFalse (devtools options))) (timerDelay ms) \<Longrightarrow>
     \<exists>duration.
       fst (setContext e options w)
         = Rejects (Error (''Failed to connect to browser within '' @ duration
             @ ''ms. Please check that the browser is running and accessible at the provided URL.''))
       \<and> readNumber duration = Some ms"
proof -
  assume "timeout options = Some ms" and "ms \<noteq> 0"
    and "\<not> settlesBefore (ensureBrowserConnected e (browserURL options) (wsEndpoint options)
                      (defaultFalse (devtools options))) (timerDelay ms)"
  then have "fst (awaitBrowser e options w) = Rejects (Error (timeoutMessage ms))"
    by (simp add: awaitBrowser_timer_first connectPromiseOf_def)
  then have "fst (setContext e options w)
      = Rejects (Error (''Failed to connect to browser within '' @ numToString ms
          @ ''ms. Please check that the browser is running and accessible at the provided URL.''))"
    by (cases "awaitBrowser e options w") (simp add: setContext_cases timeoutMessage_def)
  with readNumber_numToString[of ms] show ?thesis
    by blast
qed

theorem timeout_failure_witness:
  "timeout (exampleOptions (Some 50)) = Some 50 \<and> (50::int) \<noteq> 0 \<and> safeInteger 50
   \<and> \<not> settlesBefore (Pending :: Browser option timedPromise) (timerDelay 50)
   \<and> fst (setContext (exampleEnv Pending buildOk Never) (exampleOptions (Some 50)) exampleWorld)
       = Rejects (Error ''Failed to connect to browser within 50ms. Please check that the browser is running and accessible at the provided URL.'')
   \<and> readNumber ''50'' = Some 50
   \<and> \<not> settlesBefore (ResolvesAt 51 (Some (exampleBrowser True))) (timerDelay 50)
   \<and> fst (setContext (exampleEnv (ResolvesAt 51 (Some (exampleBrowser True))) buildOk Never)
           (exampleOptions (Some 50)) exampleWorld)
       = Rejects (Error ''Failed to connect to browser within 50ms. Please check that the browser is running and accessible at the provided URL.'')
   \<and> timeout (exampleOptions (Some 10000)) = Some 10000 \<and> (10000::int) \<noteq> 0
   \<and> safeInteger 10000
   \<and> \<not> settlesBefore (RejectsAt 20000 (Error ''connect ETIMEDOUT'')
          :: Browser option timedPromise) (timerDelay 10000)
   \<and> fst (setContext (exampleEnv (RejectsAt 20000 (Error ''connect ETIMEDOUT'')) buildOk Never)
           (exampleOptions (Some 10000)) exampleWorld)
       = Rejects (Error ''Failed to connect to browser within 10000ms. Please check that the browser is running and accessible at the provided URL.'')
   \<and> readNumber ''10000'' = Some 10000"
  using timeout_failure[where options = "exampleOptions (Some 50)" and ms = 50
      and e = "exampleEnv Pending buildOk Never" and w = exampleWorld]
    timeout_failure[where options = "exampleOptions (Some 50)" and ms = 50
      and e = "exampleEnv (ResolvesAt 51 (Some (exampleBrowser True))) buildOk Never"
      and w = exampleWorld]
    timeout_failure[where options = "exampleOptions (Some 10000)" and ms = 10000
      and e = "exampleEnv (RejectsAt 20000 (Error ''connect ETIMEDOUT'')) buildOk Never"
      and w = exampleWorld]
  by (simp add: ctx_eval num_eval)


text \<open>
  C4: on every exit path of the timeout race in which the connect operation wins (it
  resolves or rejects before the timer is due), the timer is cleared right after the race,
  before \<open>setContext\<close> goes on, returns or propagates the error: the timer is no longer
  armed in the resulting state, so it cannot fire afterwards.
\<close>

theorem timer_cleared:
  "timeout options = Some ms \<Longrightarrow> ms \<noteq> 0 \<Longrightarrow>
   settlesBefore (connectPromiseOf e options) (timerDelay ms) \<Longrightarrow>
     (\<exists>evs. trace (snd (setContext e options w))
              = trace w @ [ConnectStarted (browserURL options) (wsEndpoint options)
                             (defaultFalse (devtools options)),
                           TimerSet (nextTimerId w) ms, TimerCleared (nextTimerId w)] @ evs
            \<and> (\<forall>ev \<in> set evs. isContextBuild ev))
     \<and> nextTimerId w \<notin> set (pendingTimers (snd (setContext e options w)))
     \<and> timerFires (nextTimerId w) (snd (setContext e options w)) = snd (setContext e options w)"
proof -
  assume a: "timeout options = Some ms" "ms \<noteq> 0"
    "settlesBefore (connectPromiseOf e options) (timerDelay ms)"
  obtain r w2 where aw: "awaitBrowser e options w = (r, w2)"
    by (cases "awaitBrowser e options w")
  with awaitBrowser_world_connect_first[OF a, of w]
  have w2: "w2 = w\<lparr>pendingTimers := removeAll (nextTimerId w) (pendingTimers w),
         nextTimerId := Suc (nextTimerId w),
         trace := trace w @ [ConnectStarted (browserURL options) (wsEndpoint options)
                               (defaultFalse (devtools options)),
                             TimerSet (nextTimerId w) ms, TimerCleared (nextTimerId w)]\<rparr>"
    by simp
  have pending: "pendingTimers (snd (setContext e options w))
      = removeAll (nextTimerId w) (pendingTimers w)"
    by (simp add: setContext_cases aw w2 split: promise.splits option.splits)
  have tr: "\<exists>evs. trace (snd (setContext e options w))
              = trace w @ [ConnectStarted (browserURL options) (wsEndpoint options)
                             (defaultFalse (devtools options)),
                           TimerSet (nextTimerId w) ms, TimerCleared (nextTimerId w)] @ evs
            \<and> (\<forall>ev \<in> set evs. isContextBuild ev)"
    by (simp add: setContext_cases aw w2 split: promise.splits option.splits)
  from pending have "nextTimerId w \<notin> set (pendingTimers (snd (setContext e options w)))"
    by simp
  then show ?thesis
    using tr by (simp add: timerFires_def)
qed

theorem timer_cleared_witness:
  "timeout (exampleOptions (Some 50)) = Some 50 \<and> (50::int) \<noteq> 0
   \<and> settlesBefore (connectPromiseOf
         (exampleEnv (ResolvesAt 3 (Some (exampleBrowser True))) buildOk Never)
         (exampleOptions (Some 50))) (timerDelay 50)
   \<and> setContext (exampleEnv (ResolvesAt 3 (Some (exampleBrowser True))) buildOk Never)
         (exampleOptions (Some 50)) exampleWorld
     = (Resolves (exampleContext (exampleBrowser True) False False),
        \<lparr>contextVar = Some (exampleContext (exampleBrowser True) False False),
         pendingTimers = [], nextTimerId = 1,
         trace = [ConnectStarted None (Some ''ws://127.0.0.1:9222/devtools/browser/abc'') False,
                  TimerSet 0 50, TimerCleared 0,
                  ContextBuild (exampleBrowser True) False False]\<rparr>)
   \<and> nextTimerId exampleWorld
       \<notin> set (pendingTimers (snd (setContext
            (exampleEnv (ResolvesAt 3 (Some (exampleBrowser True))) buildOk Never)
            (exampleOptions (Some 50)) exampleWorld)))"
  using timer_cleared[of "exampleOptions (Some 50)" 50
      "exampleEnv (ResolvesAt 3 (Some (exampleBrowser True))) buildOk Never" exampleWorld]
  by (simp add: ctx_eval)


section \<open>Arguments of \<open>setContext\<close>\<close>

text \<open>
  C5, as stated, fails: "setContext fails with InvalidArgument ... when a non-positive
  timeout is supplied, before any connection attempt proceeds". With a timeout of 0, and
  with a timeout of -5, the connect operation is started and \<open>setContext\<close> succeeds.
\<close>

theorem no_argument_validation_counterexample:
  "fst (setContext (exampleEnv (ResolvesAt 3 (Some (exampleBrowser True))) buildOk Never)
          (exampleOptions (Some 0)) exampleWorld)
     = Resolves (exampleContext (exampleBrowser True) False False)
   \<and> fst (setContext (exampleEnv (ResolvesAt 0 (Some (exampleBrowser True))) buildOk Never)
          (exampleOptions (Some (- 5))) exampleWorld)
     = Resolves (exampleContext (exampleBrowser True) False False)"
  by (simp add: ctx_eval)

text \<open>
  C5, amended: \<open>setContext\<close> fails with the \<open>InvalidArgument\<close> error when neither \<open>browserURL\<close>
  nor \<open>wsEndpoint\<close> is given: the connect operation, which \<open>setContext\<close> calls first with the
  addresses as given, rejects with it at once, before any connection attempt proceeds, and
  \<open>setContext\<close> propagates that rejection, whatever the timeout, leaving the registry as it
  was and constructing no context. A non-positive
  timeout is not rejected: a timeout of 0 is the same as no timeout, a negative timeout
  arms the timer, and whatever the timeout a connect operation that resolves at once with a
  handle leads to context construction, whose outcome is the outcome of \<open>setContext\<close>.
\<close>

theorem no_argument_validation:
  "(rejectsMissingAddresses e err \<and> browserURL options = None \<and> wsEndpoint options = None
      \<longrightarrow> fst (setContext e options w) = Rejects err
          \<and> contextVar (snd (setContext e options w)) = contextVar w
          \<and> filter isContextBuild (trace (snd (setContext e options w)))
              = filter isContextBuild (trace w))
   \<and> (timeout options = Some 0
        \<longrightarrow> setContext e options w = setContext e (options\<lparr>timeout := None\<rparr>) w)
   \<and> (timeout options = Some ms \<and> ms < 0
        \<longrightarrow> (\<exists>evs. trace (snd (setContext e options w))
                    = trace w @ [ConnectStarted (browserURL options) (wsEndpoint options)
                                   (defaultFalse (devtools options)),
                                 TimerSet (nextTimerId w) ms] @ evs))
   \<and> (ensureBrowserConnected e (browserURL options) (wsEndpoint options)
          (defaultFalse (devtools options)) = ResolvesAt 0 (Some browser)
        \<longrightarrow> fst (setContext e options w)
              = McpContext_from e browser (defaultFalse (devtools options))
                  (defaultFalse (experimentalIncludeAllPages options)))"
proof -
  obtain r w2 where aw: "awaitBrowser e options w = (r, w2)"
    by (cases "awaitBrowser e options w")
  have at_once: "connectDecides e options" if "settlesBefore (connectPromiseOf e options) 0"
    using that
    by (auto simp: connectDecides_def settlesBefore_def split: option.splits timedPromise.splits)
  have missing: "fst (setContext e options w) = Rejects err
          \<and> contextVar (snd (setContext e options w)) = contextVar w
          \<and> filter isContextBuild (trace (snd (setContext e options w)))
              = filter isContextBuild (trace w)"
    if "rejectsMissingAddresses e err" and "browserURL options = None"
      and "wsEndpoint options = None"
  proof -
    from that have p: "connectPromiseOf e options = RejectsAt 0 err"
      by (cases "defaultFalse (devtools options)")
         (simp_all add: rejectsMissingAddresses_def connectPromiseOf_def)
    then have "connectDecides e options"
      by (intro at_once) (simp add: settlesBefore_def)
    from awaitBrowser_connect_decides[OF this, of w] aw p have r: "r = Rejects err"
      by (simp add: awaitConnect_def)
    obtain evs where "trace w2 = trace w @ ConnectStarted (browserURL options)
          (wsEndpoint options) (defaultFalse (devtools options)) # evs"
      and "\<forall>ev \<in> set evs. \<not> isNetworkCall ev \<and> \<not> isContextBuild ev"
      using awaitBrowser_trace[of e options w] aw by auto
    then have "filter isContextBuild (trace w2) = filter isContextBuild (trace w)"
      by simp
    with awaitBrowser_contextVar[of e options w] aw r show ?thesis
      by (simp add: setContext_cases)
  qed
  have zero: "setContext e options w = setContext e (options\<lparr>timeout := None\<rparr>) w"
    if "timeout options = Some 0"
    using that by (simp add: setContext_def awaitBrowser_def connectPromiseOf_def)
  have negative: "\<exists>evs. trace (snd (setContext e options w))
                    = trace w @ [ConnectStarted (browserURL options) (wsEndpoint options)
                                   (defaultFalse (devtools options)),
                                 TimerSet (nextTimerId w) ms] @ evs"
    if "timeout options = Some ms" and "ms < 0"
  proof -
    have "\<exists>evs. trace w2 = trace w @ [ConnectStarted (browserURL options) (wsEndpoint options)
                                   (defaultFalse (devtools options)),
                                 TimerSet (nextTimerId w) ms] @ evs"
      using that aw
      by (cases "settlesBefore (connectPromiseOf e options) (timerDelay ms)")
         (auto simp: awaitBrowser_def Let_def raceConnect_connect_first raceConnect_timer_first
            setTimeout_def clearTimeout_def timerFires_def)
    then show ?thesis
      by (auto simp: setContext_cases aw split: promise.splits option.splits)
  qed
  have resolved: "fst (setContext e options w)
              = McpContext_from e browser (defaultFalse (devtools options))
                  (defaultFalse (experimentalIncludeAllPages options))"
    if "ensureBrowserConnected e (browserURL options) (wsEndpoint options)
          (defaultFalse (devtools options)) = ResolvesAt 0 (Some browser)"
  proof -
    from that have p: "connectPromiseOf e options = ResolvesAt 0 (Some browser)"
      by (simp add: connectPromiseOf_def)
    then have "connectDecides e options"
      by (intro at_once) (simp add: settlesBefore_def)
    from awaitBrowser_connect_decides[OF this, of w] aw p have "r = Resolves (Some browser)"
      by (simp add: awaitConnect_def)
    then show ?thesis
      by (simp add: setContext_cases aw)
  qed
  from missing zero negative resolved show ?thesis by blast
qed

theorem no_argument_validation_witness:
  "rejectsMissingAddresses validatingEnv
       (Error ''Either browserURL or wsEndpoint must be provided'')
   \<and> setContext validatingEnv
        \<lparr>browserURL = None, wsEndpoint = None, devtools = None,
         experimentalIncludeAllPages = None, timeout = Some 50\<rparr> exampleWorld
      = (Rejects (Error ''Either browserURL or wsEndpoint must be provided''),
         exampleWorld\<lparr>nextTimerId := 1,
           trace := [ConnectStarted None None False, TimerSet 0 50, TimerCleared 0]\<rparr>)
   \<and> timeout (exampleOptions (Some 0)) = Some 0
   \<and> setContext (exampleEnv Pending buildOk Never) (exampleOptions (Some 0)) exampleWorld
     = setContext (exampleEnv Pending buildOk Never) (exampleOptions None) exampleWorld
   \<and> setContext (exampleEnv Pending buildOk Never) (exampleOptions (Some 0)) exampleWorld
     = (Never, exampleWorld\<lparr>trace :=
          [ConnectStarted None (Some ''ws://127.0.0.1:9222/devtools/browser/abc'') False]\<rparr>)
   \<and> timeout (exampleOptions (Some (- 5))) = Some (- 5) \<and> (- 5 :: int) < 0
   \<and> ensureBrowserConnected
        (exampleEnv (ResolvesAt 0 (Some (exampleBrowser True))) buildOk Never)
        (browserURL (exampleOptions (Some (- 5)))) (wsEndpoint (exampleOptions (Some (- 5))))
        (defaultFalse (devtools (exampleOptions (Some (- 5)))))
      = ResolvesAt 0 (Some (exampleBrowser True))
   \<and> setContext (exampleEnv (ResolvesAt 0 (Some (exampleBrowser True))) buildOk Never)
        (exampleOptions (Some (- 5))) exampleWorld
      = (Resolves (exampleContext (exampleBrowser True) False False),
         \<lparr>contextVar = Some (exampleContext (exampleBrowser True) False False),
          pendingTimers = [], nextTimerId = 1,
          trace = [ConnectStarted None (Some ''ws://127.0.0.1:9222/devtools/browser/abc'') False,
                   TimerSet 0 (- 5), TimerCleared 0,
                   ContextBuild (exampleBrowser True) False False]\<rparr>)"
  using no_argument_validation[where e = validatingEnv
      and err = "Error ''Either browserURL or wsEndpoint must be provided''"
      and options = "\<lparr>browserURL = None, wsEndpoint = None, devtools = None,
         experimentalIncludeAllPages = None, timeout = Some 50\<rparr>" and w = exampleWorld]
    no_argument_validation[where e = "exampleEnv Pending buildOk Never"
      and options = "exampleOptions (Some 0)" and w = exampleWorld]
    no_argument_validation[
      where e = "exampleEnv (ResolvesAt 0 (Some (exampleBrowser True))) buildOk Never"
      and options = "exampleOptions (Some (- 5))" and w = exampleWorld and ms = "- 5"
      and browser = "exampleBrowser True"]
  by (simp add: ctx_eval validatingEnv_def rejectsMissingAddresses_def)


section \<open>Classification of the locator by \<open>switch_browser\<close>\<close>

text \<open>
  C6: for every locator that the \<open>URL\<close> constructor accepts and whose scheme is outside
  http, https, ws and wss, the handler fails with the error "Unsupported protocol", which
  names the scheme; the state it leaves is the one after the disconnect alone and the
  response is untouched: no fetch and no connect is made.
\<close>

theorem unsupported_protocol:
  "parseScheme (param_url params) = Some scheme \<Longrightarrow>
   \<not> urlRemainderInvalid e (param_url params) \<Longrightarrow>
   scheme \<notin> {''http'', ''https'', ''ws'', ''wss''} \<Longrightarrow>
     switchBrowser_handler e args params w response
       = (Rejects (Error (''Unsupported protocol: '' @ scheme @ '':''
                          @ ''. Expected http://, https://, ws://, or wss://'')),
          disconnectBrowser w, response)
     \<and> filter isNetworkCall (trace (disconnectBrowser w)) = filter isNetworkCall (trace w)"
  by (simp add: switchBrowser_handler_def Let_def newURL_scheme unsupportedProtocol_def
      disconnectBrowser_network)

theorem unsupported_protocol_witness:
  "parseScheme (param_url \<lparr>param_url = ''ftp://host'', param_timeout = None\<rparr>) = Some ''ftp''
   \<and> \<not> urlRemainderInvalid (exampleEnv Pending buildOk Never)
         (param_url \<lparr>param_url = ''ftp://host'', param_timeout = None\<rparr>)
   \<and> ''ftp'' \<notin> {''http'', ''https'', ''ws'', ''wss''}
   \<and> switchBrowser_handler (exampleEnv Pending buildOk Never) exampleCliArgs
        \<lparr>param_url = ''ftp://host'', param_timeout = None\<rparr> exampleWorld []
      = (Rejects (Error ''Unsupported protocol: ftp:. Expected http://, https://, ws://, or wss://''),
         \<lparr>contextVar = None, pendingTimers = [], nextTimerId = 0,
          trace = [Disconnect \<lparr>browserId = 3, connected = True\<rparr>]\<rparr>, [])"
  using unsupported_protocol[where params = "\<lparr>param_url = ''ftp://host'', param_timeout = None\<rparr>"
      and scheme = "''ftp''" and e = "exampleEnv Pending buildOk Never" and args = exampleCliArgs
      and w = exampleWorld and response = "[]"]
  by (simp add: url_eval exampleEnv_def disconnectBrowser_def exampleWorld_def exampleContext_def)


text \<open>
  C7: for every locator whose scheme is ws or wss, the first thing after the disconnect is
  the connection attempt, with the locator string itself, unchanged, as \<open>wsEndpoint\<close> and no
  \<open>browserURL\<close>; no other network call is made, in particular no fetch.
\<close>

theorem websocket_locator:
  "parseScheme (param_url params) = Some scheme \<Longrightarrow>
   \<not> urlRemainderInvalid e (param_url params) \<Longrightarrow>
   scheme \<in> {''ws'', ''wss''} \<Longrightarrow>
     \<exists>evs. trace (fst (snd (switchBrowser_handler e args params w response)))
             = trace (disconnectBrowser w)
               @ ConnectStarted None (Some (param_url params))
                   (defaultFalse (args_experimentalDevtools args)) # evs
           \<and> (\<forall>ev \<in> set evs. \<not> isNetworkCall ev)"
  using connectNewBrowser_trace[of e args None "Some (param_url params)" _ "disconnectBrowser w"]
  by (auto simp: switchBrowser_handler_def Let_def newURL_scheme)

theorem websocket_locator_witness:
  "parseScheme (param_url \<lparr>param_url = ''WSS://127.0.0.1:9222/devtools/browser/abc'',
                            param_timeout = None\<rparr>) = Some ''wss''
   \<and> \<not> urlRemainderInvalid (exampleEnv (ResolvesAt 3 (Some (exampleBrowser True))) buildOk Never)
         (param_url \<lparr>param_url = ''WSS://127.0.0.1:9222/devtools/browser/abc'',
                      param_timeout = None\<rparr>)
   \<and> ''wss'' \<in> {''ws'', ''wss''}
   \<and> trace (fst (snd (switchBrowser_handler
        (exampleEnv (ResolvesAt 3 (Some (exampleBrowser True))) buildOk Never) exampleCliArgs
        \<lparr>param_url = ''WSS://127.0.0.1:9222/devtools/browser/abc'', param_timeout = None\<rparr>
        exampleWorld [])))
      = [Disconnect \<lparr>browserId = 3, connected = True\<rparr>,
         ConnectStarted None (Some ''WSS://127.0.0.1:9222/devtools/browser/abc'') False,
         TimerSet 0 10000, TimerCleared 0, ContextBuild (exampleBrowser True) False False]"
  using websocket_locator[
      where params = "\<lparr>param_url = ''WSS://127.0.0.1:9222/devtools/browser/abc'',
                       param_timeout = None\<rparr>"
      and scheme = "''wss''"
      and e = "exampleEnv (ResolvesAt 3 (Some (exampleBrowser True))) buildOk Never"
      and args = exampleCliArgs and w = exampleWorld and response = "[]"]
  by (simp add: url_eval ctx_eval switch_eval)


text \<open>
  C8: for every locator whose scheme is http or https, exactly one request is issued, to
  \<open><url>/json/version\<close>; when the answer is a JSON object, its \<open>webSocketDebuggerUrl\<close>
  property is the \<open>wsEndpoint\<close> and the original URL the \<open>browserURL\<close> of the connection
  attempt that follows; and a failure of the fetch or of the parse makes the handler fail
  with an error whose message contains the URL and the underlying cause, with no connection
  attempt. The cause is the message of the error with which \<open>fetch\<close> or \<open>response.json()\<close>
  rejects (or the string of a thrown value that is no error), "Failed to fetch browser
  info:" with the status text of an answer that is not ok, or the message of the
  \<open>TypeError\<close> of reading the property of a \<open>null\<close> body.
\<close>

theorem http_locator:
  assumes "parseScheme (param_url params) = Some scheme"
    and "\<not> urlRemainderInvalid e (param_url params)"
    and "scheme \<in> {''http'', ''https''}"
  shows "(\<exists>evs. trace (fst (snd (switchBrowser_handler e args params w response)))
               = trace (disconnectBrowser w) @ Fetch (param_url params @ ''/json/version'') # evs
             \<and> (\<forall>ev \<in> set evs. \<not> isFetch ev))
    \<and> (fetch e (param_url params @ ''/json/version'') = Resolves r \<and> ok r
         \<and> json r = Resolves (JsonObject data)
        \<longrightarrow> (\<exists>evs. trace (fst (snd (switchBrowser_handler e args params w response)))
               = trace (disconnectBrowser w)
                 @ [Fetch (param_url params @ ''/json/version''),
                    ConnectStarted (Some (param_url params)) (data ''webSocketDebuggerUrl'')
                      (defaultFalse (args_experimentalDevtools args))] @ evs))
    \<and> (fetch e (param_url params @ ''/json/version'') = Rejects (Error cause)
        \<or> fetch e (param_url params @ ''/json/version'') = Rejects (NonError cause)
        \<or> (fetch e (param_url params @ ''/json/version'') = Resolves answer \<and> \<not> ok answer
            \<and> cause = ''Failed to fetch browser info: '' @ statusText answer)
        \<or> (fetch e (param_url params @ ''/json/version'') = Resolves answer \<and> ok answer
            \<and> (json answer = Rejects (Error cause) \<or> json answer = Rejects (NonError cause)
                \<or> (json answer = Resolves JsonNull
                    \<and> cause = ''Cannot read properties of null (reading '' @ [CHR 0x27]
                                 @ ''webSocketDebuggerUrl'' @ [CHR 0x27] @ '')'')))
        \<longrightarrow> switchBrowser_handler e args params w response
            = (Rejects (Error (''Could not connect to browser at '' @ param_url params @ '': ''
                 @ cause @ ''. Make sure the browser is running and the URL is correct.'')),
               disconnectBrowser w\<lparr>trace := trace (disconnectBrowser w)
                 @ [Fetch (param_url params @ ''/json/version'')]\<rparr>,
               response @ [''Fetching WebSocket endpoint from browser at '' @ param_url params
                           @ ''...'']))"
proof -
  let ?url = "param_url params"
  let ?w1 = "disconnectBrowser w"
  let ?fetched = "?w1\<lparr>trace := trace ?w1 @ [Fetch (?url @ ''/json/version'')]\<rparr>"
  let ?fetching = "response @ [''Fetching WebSocket endpoint from browser at '' @ ?url @ ''...'']"
  from assms have proto: "newURL e ?url = Inr \<lparr>protocol = scheme @ '':''\<rparr>"
    and http: "scheme @ '':'' = ''http:'' \<or> scheme @ '':'' = ''https:''"
    and not_ws: "scheme @ '':'' \<noteq> ''ws:''" "scheme @ '':'' \<noteq> ''wss:''"
    by (auto simp: newURL_scheme)
  obtain p w2 where conv: "convertHttpToBrowserUrl e ?url ?w1 = (p, w2)"
    by (cases "convertHttpToBrowserUrl e ?url ?w1")
  with convertHttp_world[of e ?url ?w1] have w2: "w2 = ?fetched" by simp
  have handler: "switchBrowser_handler e args params w response =
      (case p of
         Rejects err \<Rightarrow> (Rejects err, ?fetched, ?fetching)
       | Never \<Rightarrow> (Never, ?fetched, ?fetching)
       | Resolves ws \<Rightarrow>
           connectNewBrowser e args (Some ?url) ws
             (case param_timeout params of None \<Rightarrow> 10000 | Some ms \<Rightarrow> ms) ?fetched
             (?fetching @ [''Resolved WebSocket endpoint: ''
                @ (case ws of None \<Rightarrow> ''undefined'' | Some s \<Rightarrow> s)]))"
    using http not_ws
    by (simp add: switchBrowser_handler_def Let_def proto conv w2 split: promise.splits)
  have one_fetch: "\<exists>evs. trace (fst (snd (switchBrowser_handler e args params w response)))
               = trace ?w1 @ Fetch (?url @ ''/json/version'') # evs
             \<and> (\<forall>ev \<in> set evs. \<not> isFetch ev)"
  proof (cases p)
    case (Resolves ws)
    obtain evs where "trace (fst (snd (connectNewBrowser e args (Some ?url) ws
             (case param_timeout params of None \<Rightarrow> 10000 | Some ms \<Rightarrow> ms) ?fetched
             (?fetching @ [''Resolved WebSocket endpoint: ''
                @ (case ws of None \<Rightarrow> ''undefined'' | Some s \<Rightarrow> s)]))))
         = trace ?fetched @ ConnectStarted (Some ?url) ws
             (defaultFalse (args_experimentalDevtools args)) # evs"
      and "\<forall>ev \<in> set evs. \<not> isNetworkCall ev"
      using connectNewBrowser_trace by blast
    with Resolves handler show ?thesis
      by (auto dest: isFetch_network)
  qed (simp_all add: handler)
  have endpoint: "\<exists>evs. trace (fst (snd (switchBrowser_handler e args params w response)))
               = trace ?w1 @ [Fetch (?url @ ''/json/version''),
                    ConnectStarted (Some ?url) (data ''webSocketDebuggerUrl'')
                      (defaultFalse (args_experimentalDevtools args))] @ evs"
    if "fetch e (?url @ ''/json/version'') = Resolves r" and "ok r"
      and "json r = Resolves (JsonObject data)"
  proof -
    from convertHttp_object[OF that, of ?w1] conv
    have p: "p = Resolves (data ''webSocketDebuggerUrl'')" by simp
    obtain evs where "trace (fst (snd (connectNewBrowser e args (Some ?url)
             (data ''webSocketDebuggerUrl'')
             (case param_timeout params of None \<Rightarrow> 10000 | Some ms \<Rightarrow> ms) ?fetched
             (?fetching @ [''Resolved WebSocket endpoint: ''
                @ (case data ''webSocketDebuggerUrl'' of None \<Rightarrow> ''undefined'' | Some s \<Rightarrow> s)]))))
         = trace ?fetched @ ConnectStarted (Some ?url) (data ''webSocketDebuggerUrl'')
             (defaultFalse (args_experimentalDevtools args)) # evs"
      using connectNewBrowser_trace by blast
    then show ?thesis
      by (simp add: handler p)
  qed
  have failure: "switchBrowser_handler e args params w response
            = (Rejects (Error (''Could not connect to browser at '' @ ?url @ '': ''
                 @ cause @ ''. Make sure the browser is running and the URL is correct.'')),
               ?fetched, ?fetching)"
    if "fetch e (?url @ ''/json/version'') = Rejects (Error cause)
        \<or> fetch e (?url @ ''/json/version'') = Rejects (NonError cause)
        \<or> (fetch e (?url @ ''/json/version'') = Resolves answer \<and> \<not> ok answer
            \<and> cause = ''Failed to fetch browser info: '' @ statusText answer)
        \<or> (fetch e (?url @ ''/json/version'') = Resolves answer \<and> ok answer
            \<and> (json answer = Rejects (Error cause) \<or> json answer = Rejects (NonError cause)
                \<or> (json answer = Resolves JsonNull
                    \<and> cause = ''Cannot read properties of null (reading '' @ [CHR 0x27]
                                 @ ''webSocketDebuggerUrl'' @ [CHR 0x27] @ '')'')))"
    using convertHttp_failure[OF that, of ?w1] conv by (simp add: handler)
  from one_fetch endpoint failure show ?thesis by blast
qed

theorem http_locator_witness:
  "parseScheme (param_url \<lparr>param_url = ''http://127.0.0.1:9222'', param_timeout = None\<rparr>)
     = Some ''http''
   \<and> ''http'' \<in> {''http'', ''https''}
   \<and> trace (fst (snd (switchBrowser_handler
        (exampleEnv (ResolvesAt 3 (Some (exampleBrowser True))) buildOk
           (Resolves \<lparr>ok = True, statusText = ''OK'',
              json = Resolves (JsonObject [''webSocketDebuggerUrl'' \<mapsto> ''ws://X''])\<rparr>))
        exampleCliArgs \<lparr>param_url = ''http://127.0.0.1:9222'', param_timeout = None\<rparr>
        exampleWorld [])))
      = [Disconnect \<lparr>browserId = 3, connected = True\<rparr>,
         Fetch ''http://127.0.0.1:9222/json/version'',
         ConnectStarted (Some ''http://127.0.0.1:9222'') (Some ''ws://X'') False,
         TimerSet 0 10000, TimerCleared 0, ContextBuild (exampleBrowser True) False False]
   \<and> switchBrowser_handler (exampleEnv Pending buildOk (Rejects (Error ''fetch failed'')))
        exampleCliArgs \<lparr>param_url = ''http://127.0.0.1:9222'', param_timeout = None\<rparr>
        exampleWorld []
      = (Rejects (Error ''Could not connect to browser at http://127.0.0.1:9222: fetch failed. Make sure the browser is running and the URL is correct.''),
         \<lparr>contextVar = None, pendingTimers = [], nextTimerId = 0,
          trace = [Disconnect \<lparr>browserId = 3, connected = True\<rparr>,
                   Fetch ''http://127.0.0.1:9222/json/version'']\<rparr>,
         [''Fetching WebSocket endpoint from browser at http://127.0.0.1:9222...''])
   \<and> fst (switchBrowser_handler
        (exampleEnv Pending buildOk
           (Resolves \<lparr>ok = False, statusText = ''Not Found'', json = Never\<rparr>))
        exampleCliArgs \<lparr>param_url = ''http://127.0.0.1:9222'', param_timeout = None\<rparr>
        exampleWorld [])
      = Rejects (Error ''Could not connect to browser at http://127.0.0.1:9222: Failed to fetch browser info: Not Found. Make sure the browser is running and the URL is correct.'')
   \<and> fst (switchBrowser_handler
        (exampleEnv Pending buildOk
           (Resolves \<lparr>ok = True, statusText = ''OK'',
              json = Rejects (Error ''Unexpected end of JSON input'')\<rparr>))
        exampleCliArgs \<lparr>param_url = ''http://127.0.0.1:9222'', param_timeout = None\<rparr>
        exampleWorld [])
      = Rejects (Error ''Could not connect to browser at http://127.0.0.1:9222: Unexpected end of JSON input. Make sure the browser is running and the URL is correct.'')"
  using http_locator[
      where params = "\<lparr>param_url = ''http://127.0.0.1:9222'', param_timeout = None\<rparr>"
      and scheme = "''http''"
      and e = "exampleEnv (ResolvesAt 3 (Some (exampleBrowser True))) buildOk
           (Resolves \<lparr>ok = True, statusText = ''OK'',
              json = Resolves (JsonObject [''webSocketDebuggerUrl'' \<mapsto> ''ws://X''])\<rparr>)"
      and args = exampleCliArgs and w = exampleWorld and response = "[]"
      and r = "\<lparr>ok = True, statusText = ''OK'',
              json = Resolves (JsonObject [''webSocketDebuggerUrl'' \<mapsto> ''ws://X''])\<rparr>"
      and data = "[''webSocketDebuggerUrl'' \<mapsto> ''ws://X'']"]
    http_locator[
      where params = "\<lparr>param_url = ''http://127.0.0.1:9222'', param_timeout = None\<rparr>"
      and scheme = "''http''"
      and e = "exampleEnv Pending buildOk (Rejects (Error ''fetch failed''))"
      and args = exampleCliArgs and w = exampleWorld and response = "[]"
      and cause = "''fetch failed''"]
    http_locator[
      where params = "\<lparr>param_url = ''http://127.0.0.1:9222'', param_timeout = None\<rparr>"
      and scheme = "''http''"
      and e = "exampleEnv Pending buildOk
           (Resolves \<lparr>ok = False, statusText = ''Not Found'', json = Never\<rparr>)"
      and args = exampleCliArgs and w = exampleWorld and response = "[]"
      and answer = "\<lparr>ok = False, statusText = ''Not Found'', json = Never\<rparr>"
      and cause = "''Failed to fetch browser info: Not Found''"]
    http_locator[
      where params = "\<lparr>param_url = ''http://127.0.0.1:9222'', param_timeout = None\<rparr>"
      and scheme = "''http''"
      and e = "exampleEnv Pending buildOk
           (Resolves \<lparr>ok = True, statusText = ''OK'',
              json = Rejects (Error ''Unexpected end of JSON input'')\<rparr>)"
      and args = exampleCliArgs and w = exampleWorld and response = "[]"
      and answer = "\<lparr>ok = True, statusText = ''OK'',
              json = Rejects (Error ''Unexpected end of JSON input'')\<rparr>"
      and cause = "''Unexpected end of JSON input''"]
  by (simp add: url_eval ctx_eval switch_eval)


section \<open>\<open>get_dom_tree\<close>: the depth limit\<close>

lemmas dom_eval = getDomTree_evaluate_def exampleDoc_def exampleArgs_def exampleDom_def
  serializeNode.simps Let_def toLowerCase_def toLowerCaseChar_def asciiUpper_def asciiLower_def
  serializeAttributes_def serializeText_def trim_def isWhiteSpace_def

lemma serializeNode_children:
  "dn_children (serializeNode args node d) =
     (if childElements (childNodes node) \<noteq> [] \<and> real d < maxDepth args
      then Some (map (\<lambda>c. serializeNode args c (d + 1)) (childElements (childNodes node)))
      else None)"
  by (subst serializeNode.simps) (simp add: Let_def)

lemma serializeNode_childCount:
  "dn_childCount (serializeNode args node d) =
     (if childElements (childNodes node) \<noteq> [] \<and> \<not> real d < maxDepth args
      then Some (length (childElements (childNodes node)))
      else None)"
  by (subst serializeNode.simps) (simp add: Let_def)

lemma nodeDepths_sel:
  "nodeDepths d t =
     d # (case dn_children t of None \<Rightarrow> [] | Some cs \<Rightarrow> concat (map (nodeDepths (Suc d)) cs))"
  by (cases t) simp

text \<open>A node below the root of a serialized subtree is there because its parent, one level
  up, was still above the limit.\<close>

lemma serializeNode_depths:
  "k \<in> set (nodeDepths d (serializeNode args node d))
     \<Longrightarrow> k = d \<or> (d < k \<and> real k - 1 < maxDepth args)"
proof (induction args node d arbitrary: k rule: serializeNode.induct)
  case (1 args node currentDepth)
  show ?case
  proof (cases "k = currentDepth")
    case True
    then show ?thesis by simp
  next
    case False
    let ?cs = "childElements (childNodes node)"
    from "1.prems" False have descend: "?cs \<noteq> [] \<and> real currentDepth < maxDepth args"
      and "\<exists>c \<in> set ?cs.
             k \<in> set (nodeDepths (Suc currentDepth) (serializeNode args c (currentDepth + 1)))"
      by (auto simp: nodeDepths_sel[of currentDepth] serializeNode_children split: if_splits)
    then obtain c where c: "c \<in> set ?cs"
      and k: "k \<in> set (nodeDepths (currentDepth + 1) (serializeNode args c (currentDepth + 1)))"
      by auto
    from "1.IH"[OF refl descend c k] descend show ?thesis by auto
  qed
qed

text \<open>
  C10, as stated, fails: "no node deeper than maxDepth ever appears in the output".
  \<open>maxDepth\<close> is any number. With \<open>maxDepth = 1.5\<close> the nodes at depth 1 still have their
  children serialized, so a node at depth 2 appears; with \<open>maxDepth = -1\<close> the root, at
  depth 0, appears.
\<close>

theorem getDomTree_depth_counterexample:
  "getDomTree_evaluate exampleDoc (exampleArgs (3/2)) = Inr (Tree
     (DomNode ''body'' None None None (Some ''hello'')
       (Some [DomNode ''div'' (Some ''main'') (Some ''box'') (Some [(''role'', ''list'')]) None
                (Some [DomNode ''p'' None None None (Some ''deep'') None None]) None,
              DomNode ''span'' None None None None None None]) None))
   \<and> nodeDepths 0 (serializeNode (exampleArgs (3/2)) exampleDom 0) = [0, 1, 2, 1]
   \<and> \<not> real 2 \<le> maxDepth (exampleArgs (3/2))
   \<and> nodeDepths 0 (serializeNode (exampleArgs (- 1)) exampleDom 0) = [0]
   \<and> \<not> real 0 \<le> maxDepth (exampleArgs (- 1))"
  by (simp add: dom_eval)

text \<open>
  C10, amended: for every serialized element node at depth \<open>d\<close>, its element children are
  serialized (at depth \<open>d + 1\<close>) exactly when it has some and \<open>d < maxDepth\<close>; otherwise, when
  it has some, only their number is reported as \<open>childCount\<close> and there is no children
  array. Hence a node at depth \<open>k > 0\<close> appears in the returned tree only if
  \<open>k - 1 < maxDepth\<close>, and when \<open>maxDepth\<close> is a non-negative integer \<open>m\<close> no node deeper than
  \<open>m\<close> appears. The root always appears.
\<close>

theorem getDomTree_depth_limit:
  "dn_children (serializeNode args node d) =
     (if childElements (childNodes node) \<noteq> [] \<and> real d < maxDepth args
      then Some (map (\<lambda>c. serializeNode args c (d + 1)) (childElements (childNodes node)))
      else None)
   \<and> dn_childCount (serializeNode args node d) =
     (if childElements (childNodes node) \<noteq> [] \<and> \<not> real d < maxDepth args
      then Some (length (childElements (childNodes node)))
      else None)
   \<and> (getDomTree_evaluate doc args = Inr (Tree tree) \<and> k \<in> set (nodeDepths 0 tree)
        \<longrightarrow> k = 0 \<or> real k - 1 < maxDepth args)
   \<and> (getDomTree_evaluate doc args = Inr (Tree tree) \<and> k \<in> set (nodeDepths 0 tree)
        \<and> maxDepth args = real m \<longrightarrow> k \<le> m)"
proof -
  have depth: "k = 0 \<or> real k - 1 < maxDepth args"
    if "getDomTree_evaluate doc args = Inr (Tree tree)" and "k \<in> set (nodeDepths 0 tree)"
  proof -
    from that(1) obtain r where "tree = serializeNode args r 0"
      by (auto simp: getDomTree_evaluate_def split: option.splits if_splits sum.splits)
    with that(2) serializeNode_depths[of k 0 args r] show ?thesis by auto
  qed
  have "k \<le> m" if "getDomTree_evaluate doc args = Inr (Tree tree)" and "k \<in> set (nodeDepths 0 tree)"
    and "maxDepth args = real m"
    using depth[OF that(1,2)] that(3) by auto
  with depth show ?thesis
    by (simp add: serializeNode_children serializeNode_childCount)
qed

theorem getDomTree_depth_limit_witness:
  "getDomTree_evaluate exampleDoc (exampleArgs 1) = Inr (Tree
     (DomNode ''body'' None None None (Some ''hello'')
       (Some [DomNode ''div'' (Some ''main'') (Some ''box'') (Some [(''role'', ''list'')]) None
                None (Some 1),
              DomNode ''span'' None None None None None None]) None))
   \<and> 1 \<in> set (nodeDepths 0 (DomNode ''body'' None None None (Some ''hello'')
       (Some [DomNode ''div'' (Some ''main'') (Some ''box'') (Some [(''role'', ''list'')]) None
                None (Some 1),
              DomNode ''span'' None None None None None None]) None))
   \<and> maxDepth (exampleArgs 1) = real 1
   \<and> (1::nat) \<le> 1
   \<and> dn_childCount (serializeNode (exampleArgs 1) exampleDom 0) = None"
  using getDomTree_depth_limit[of "exampleArgs 1" exampleDom 0 exampleDoc
      "DomNode ''body'' None None None (Some ''hello'')
       (Some [DomNode ''div'' (Some ''main'') (Some ''box'') (Some [(''role'', ''list'')]) None
                None (Some 1),
              DomNode ''span'' None None None None None None]) None" 1 1]
  by (simp add: dom_eval)


section \<open>\<open>inspect_element\<close>: the guard on its arguments\<close>

text \<open>
  C9, as stated, fails: "with a selector ... it proceeds to evaluation". The guard tests
  \<open>!selector\<close>, which also holds for the empty string: a request that supplies the selector
  \<open>""\<close> and no coordinates is rejected before anything is evaluated.
\<close>

theorem inspectElement_empty_selector_counterexample:
  "param_selector \<lparr>param_selector = Some [], param_x = None, param_y = None, param_highlight = True\<rparr>
     = Some []
   \<and> inspectElement_handler exampleToolEnv
       \<lparr>param_selector = Some [], param_x = None, param_y = None, param_highlight = True\<rparr> [] []
     = (Rejects (Error missingTargetMessage), [], [])"
  by (simp add: inspectElement_handler_def exampleToolEnv_def truthyString_def)

text \<open>
  C9, amended: once the selected page is obtained, the handler throws the error 'Either
  "selector" or "x" and "y" coordinates must be provided.' before evaluating anything in
  the page whenever the selector is absent or the empty string and \<open>x\<close> and \<open>y\<close> are not both
  supplied; with a non-empty selector, or with both coordinates, it proceeds to the
  evaluation in that page.
\<close>

theorem inspectElement_guard:
  "getSelectedPage tenv = Inr page \<Longrightarrow>
     (\<not> truthyString (param_selector params) \<and> (param_x params = None \<or> param_y params = None)
        \<longrightarrow> inspectElement_handler tenv params evaluations response
              = (Rejects (Error missingTargetMessage), evaluations, response))
     \<and> (truthyString (param_selector params) \<or> (param_x params \<noteq> None \<and> param_y params \<noteq> None)
        \<longrightarrow> fst (snd (inspectElement_handler tenv params evaluations response))
              = evaluations @ [page])"
  by (auto simp: inspectElement_handler_def split: promise.splits)

theorem inspectElement_guard_witness:
  "getSelectedPage exampleToolEnv = Inr 0
   \<and> inspectElement_handler exampleToolEnv
       \<lparr>param_selector = None, param_x = Some 10, param_y = None, param_highlight = True\<rparr> [] []
     = (Rejects (Error missingTargetMessage), [], [])
   \<and> fst (snd (inspectElement_handler exampleToolEnv
       \<lparr>param_selector = Some ''#main'', param_x = None, param_y = None, param_highlight = True\<rparr> [] []))
     = [0]
   \<and> inspectElement_handler exampleToolEnv
       \<lparr>param_selector = None, param_x = Some 10, param_y = Some 20, param_highlight = True\<rparr> [] []
     = (Resolves (), [0], [''Error: Element not found''])"
  using inspectElement_guard[of exampleToolEnv 0
      "\<lparr>param_selector = None, param_x = Some 10, param_y = None, param_highlight = True\<rparr>" "[]" "[]"]
    inspectElement_guard[of exampleToolEnv 0
      "\<lparr>param_selector = Some ''#main'', param_x = None, param_y = None, param_highlight = True\<rparr>" "[]" "[]"]
  by (simp add: inspectElement_handler_def exampleToolEnv_def truthyString_def)

end
